theory Spec2Isabelle
  imports Complex_Main "HOL-Library.Char_ord" "HOL-Library.List_Lexorder" "HOL-Library.Option_ord"
    "HOL-Library.Product_Lexorder" "HOL-Library.Multiset"
begin

section \<open>The record store\<close>

text \<open>
  One row of the table \<^verbatim>\<open>police_stop_logs\<close> created by \<^verbatim>\<open>init_db\<close> (app.py).
  No column but the key is declared NOT NULL, so every other column may hold NULL,
  which is \<open>None\<close> here. TEXT columns are strings, INTEGER columns are integers.
\<close>

record stop_record =
  stop_id :: int
  stop_datetime :: "string option"
  country_name :: "string option"
  vehicle_number :: "string option"
  driver_gender :: "string option"
  driver_age :: "int option"
  driver_race :: "string option"
  violation :: "string option"
  stop_duration :: "string option"
  stop_outcome :: "string option"
  search_conducted :: "int option"
  search_type :: "string option"
  is_arrested :: "int option"
  drugs_related_stop :: "int option"

datatype db_error = OperationalError

datatype statement = CreateTable | Select | Insert | Pragma

text \<open>
  The database file \<^verbatim>\<open>securecheck_police_logs.db\<close>, as far as the program can observe it:
  the table (absent before the first \<^verbatim>\<open>init_db\<close>), the AUTOINCREMENT counter, the
  connections that were opened and not closed, the statements that were executed (latest
  first), and whether the file can be used at all (a locked, read-only or damaged file
  makes every statement raise).
\<close>

record db_state =
  tbl :: "stop_record list option"
  last_id :: int
  open_conns :: nat
  executed :: "statement list"
  unusable :: bool

definition get_db_connection :: "db_state \<Rightarrow> db_state" where
  "get_db_connection db = db\<lparr>open_conns := Suc (open_conns db)\<rparr>"

definition conn_close :: "db_state \<Rightarrow> db_state" where
  "conn_close db = db\<lparr>open_conns := open_conns db - 1\<rparr>"

text \<open>\<^verbatim>\<open>cursor.execute\<close>: raises on an unusable file, otherwise logs the statement.\<close>

definition execute :: "statement \<Rightarrow> db_state \<Rightarrow> db_error + db_state" where
  "execute s db = (if unusable db then Inl OperationalError
                   else Inr (db\<lparr>executed := s # executed db\<rparr>))"

text \<open>
  \<^verbatim>\<open>init_db\<close>: connect, CREATE TABLE IF NOT EXISTS, commit, close, in a straight line:
  when \<^verbatim>\<open>execute\<close> raises, the exception leaves the function before \<^verbatim>\<open>conn.close()\<close>.
\<close>

definition init_db :: "db_state \<Rightarrow> (db_error + unit) \<times> db_state" where
  "init_db db =
     (let conn = get_db_connection db in
      case execute CreateTable conn of
        Inl e \<Rightarrow> (Inl e, conn)
      | Inr db1 \<Rightarrow>
          (Inr (), conn_close (db1\<lparr>tbl := (case tbl db1 of None \<Rightarrow> Some [] | Some rs \<Rightarrow> Some rs)\<rparr>)))"

text \<open>
  \<^verbatim>\<open>run_query\<close>: the SQL text with its bound parameters is represented by what it
  denotes, a function of the table's rows. A missing table raises, as does an unusable
  file; the \<^verbatim>\<open>finally\<close> block closes the connection on both paths.
\<close>

definition run_query :: "(stop_record list \<Rightarrow> 'a) \<Rightarrow> db_state \<Rightarrow> (db_error + 'a) \<times> db_state" where
  "run_query q db =
     (let conn = get_db_connection db in
      case execute Select conn of
        Inl e \<Rightarrow> (Inl e, conn_close conn)
      | Inr db1 \<Rightarrow>
          (case tbl db1 of
             None \<Rightarrow> (Inl OperationalError, conn_close conn)
           | Some rs \<Rightarrow> (Inr (q rs), conn_close db1)))"

text \<open>
  \<^verbatim>\<open>insert_log\<close>: the thirteen values of the tuple, in the column order of the INSERT
  statement; the key is the AUTOINCREMENT counter plus one; returns \<^verbatim>\<open>cur.lastrowid\<close>.
\<close>

record new_log =
  nl_stop_datetime :: string
  nl_country_name :: string
  nl_vehicle_number :: string
  nl_driver_gender :: string
  nl_driver_age :: int
  nl_driver_race :: string
  nl_violation :: string
  nl_stop_duration :: string
  nl_stop_outcome :: string
  nl_search_conducted :: int
  nl_search_type :: string
  nl_is_arrested :: int
  nl_drugs_related_stop :: int

definition row_of :: "int \<Rightarrow> new_log \<Rightarrow> stop_record" where
  "row_of i v =
     \<lparr>stop_id = i,
      stop_datetime = Some (nl_stop_datetime v),
      country_name = Some (nl_country_name v),
      vehicle_number = Some (nl_vehicle_number v),
      driver_gender = Some (nl_driver_gender v),
      driver_age = Some (nl_driver_age v),
      driver_race = Some (nl_driver_race v),
      violation = Some (nl_violation v),
      stop_duration = Some (nl_stop_duration v),
      stop_outcome = Some (nl_stop_outcome v),
      search_conducted = Some (nl_search_conducted v),
      search_type = Some (nl_search_type v),
      is_arrested = Some (nl_is_arrested v),
      drugs_related_stop = Some (nl_drugs_related_stop v)\<rparr>"

definition insert_log :: "new_log \<Rightarrow> db_state \<Rightarrow> (db_error + int) \<times> db_state" where
  "insert_log values_tuple db =
     (let conn = get_db_connection db in
      case execute Insert conn of
        Inl e \<Rightarrow> (Inl e, conn_close conn)
      | Inr db1 \<Rightarrow>
          (case tbl db1 of
             None \<Rightarrow> (Inl OperationalError, conn_close conn)
           | Some rs \<Rightarrow>
               (let lastrowid = last_id db1 + 1 in
                (Inr lastrowid,
                 conn_close (db1\<lparr>tbl := Some (rs @ [row_of lastrowid values_tuple]),
                                 last_id := lastrowid\<rparr>)))))"

text \<open>
  \<^verbatim>\<open>get_table_info\<close>: PRAGMA table_info lists the columns, and lists nothing for a
  table that does not exist.
\<close>

definition table_columns :: "string list" where
  "table_columns =
     [''stop_id'', ''stop_datetime'', ''country_name'', ''vehicle_number'', ''driver_gender'',
      ''driver_age'', ''driver_race'', ''violation'', ''stop_duration'', ''stop_outcome'',
      ''search_conducted'', ''search_type'', ''is_arrested'', ''drugs_related_stop'']"

definition get_table_info :: "db_state \<Rightarrow> (db_error + string list) \<times> db_state" where
  "get_table_info db =
     (let conn = get_db_connection db in
      case execute Pragma conn of
        Inl e \<Rightarrow> (Inl e, conn_close conn)
      | Inr db1 \<Rightarrow>
          (Inr (case tbl db1 of None \<Rightarrow> [] | Some rs \<Rightarrow> table_columns), conn_close db1))"

section \<open>Text normalisation\<close>

text \<open>
  \<^verbatim>\<open>str.upper\<close> and \<^verbatim>\<open>str.strip\<close> on ASCII text (a \<open>char\<close> is one byte; code points
  beyond ASCII are outside this model). \<^verbatim>\<open>strip\<close> removes the characters for which
  \<^verbatim>\<open>str.isspace\<close> holds: tab to carriage return, the four separators 28 to 31, and
  the space.
\<close>

definition upper_char :: "char \<Rightarrow> char" where
  "upper_char c =
     (let n = (of_char c :: nat) in if 97 \<le> n \<and> n \<le> 122 then char_of (n - 32) else c)"

definition upper :: "string \<Rightarrow> string" where
  "upper s = map upper_char s"

definition isspace :: "char \<Rightarrow> bool" where
  "isspace c = (let n = (of_char c :: nat) in (9 \<le> n \<and> n \<le> 13) \<or> (28 \<le> n \<and> n \<le> 32))"

definition strip :: "string \<Rightarrow> string" where
  "strip s = rev (dropWhile isspace (rev (dropWhile isspace s)))"

section \<open>Date and time formatting\<close>

text \<open>
  \<^verbatim>\<open>datetime.combine(stop_date, stop_time).strftime('%Y-%m-%d %H:%M:%S')\<close>.
  The month, day, hour, minute and second fields are two digits, zero-padded. The year
  is written in decimal; below 1000 the padding is left to the platform's C library, and
  the shortest form (what glibc prints) is taken here.
\<close>

record py_date =
  year :: nat
  month :: nat
  day :: nat

record py_time =
  hour :: nat
  minute :: nat
  second :: nat

definition digit :: "nat \<Rightarrow> char" where
  "digit n = char_of (48 + n mod 10)"

definition fmt2 :: "nat \<Rightarrow> string" where
  "fmt2 n = [digit (n div 10), digit n]"

definition fmt_year :: "nat \<Rightarrow> string" where
  "fmt_year y =
     (if y < 10 then [digit y]
      else if y < 100 then [digit (y div 10), digit y]
      else if y < 1000 then [digit (y div 100), digit (y div 10), digit y]
      else [digit (y div 1000), digit (y div 100), digit (y div 10), digit y])"

definition strftime_ymd_hms :: "py_date \<Rightarrow> py_time \<Rightarrow> string" where
  "strftime_ymd_hms d t =
     fmt_year (year d) @ ''-'' @ fmt2 (month d) @ ''-'' @ fmt2 (day d) @ '' '' @
     fmt2 (hour t) @ '':'' @ fmt2 (minute t) @ '':'' @ fmt2 (second t)"

section \<open>The ingestion path\<close>

text \<open>The widgets of \<^verbatim>\<open>new_log_form\<close>, with the values they hold at submission.\<close>

record form_input =
  f_stop_date :: py_date
  f_stop_time :: py_time
  f_country_name :: string
  f_vehicle_number :: string
  f_driver_gender :: string
  f_driver_age :: int
  f_driver_race :: string
  f_violation :: string
  f_stop_duration :: string
  f_search_conducted :: int
  f_search_type :: string
  f_stop_outcome :: string
  f_is_arrested :: int
  f_drugs_related_stop :: int

text \<open>
  \<^verbatim>\<open>SELECT COUNT(*) AS c FROM police_stop_logs WHERE vehicle_number = ? AND is_arrested = 1\<close>
  with the vehicle number bound to the parameter. A comparison with NULL is not true.
\<close>

definition flag_query :: "string \<Rightarrow> stop_record list \<Rightarrow> nat" where
  "flag_query v rs =
     length (filter (\<lambda>r. vehicle_number r = Some v \<and> is_arrested r = Some 1) rs)"

text \<open>
  \<^verbatim>\<open>load_kpis\<close>: COUNT(*) and two conditional sums over the whole table. SUM over no
  rows is NULL.
\<close>

definition sum_flag :: "(stop_record \<Rightarrow> int option) \<Rightarrow> stop_record list \<Rightarrow> int option" where
  "sum_flag f rs =
     (if rs = [] then None
      else Some (sum_list (map (\<lambda>r. if f r = Some 1 then 1 else 0) rs)))"

record kpis =
  total_stops :: int
  total_arrests :: "int option"
  total_drug_stops :: "int option"

definition load_kpis_sql :: "stop_record list \<Rightarrow> kpis" where
  "load_kpis_sql rs =
     \<lparr>total_stops = int (length rs),
      total_arrests = sum_flag is_arrested rs,
      total_drug_stops = sum_flag drugs_related_stop rs\<rparr>"

definition load_kpis :: "db_state \<Rightarrow> (db_error + kpis) \<times> db_state" where
  "load_kpis db = run_query load_kpis_sql db"

text \<open>What the handler shows to the operator.\<close>

datatype message =
    InvalidVehicleNumber
  | PriorArrestAlert string nat
  | NoPriorArrests string
  | LogRecorded int
  | ErrorRecordingLog db_error

text \<open>
  The body of \<^verbatim>\<open>if submitted:\<close>. The vehicle number was upper-cased and stripped when
  the widget was read. An exception of the prior-arrest query is not caught and ends the
  run (\<open>Inl\<close>); the insert and the KPI refresh after it are inside \<^verbatim>\<open>try ... except\<close>.
\<close>

definition submit :: "form_input \<Rightarrow> db_state \<Rightarrow> (db_error + message list) \<times> db_state" where
  "submit inp db =
     (let vehicle_number = strip (upper (f_vehicle_number inp)) in
      if vehicle_number = [] \<or> length vehicle_number < 4 then (Inr [InvalidVehicleNumber], db)
      else
        (let stop_datetime = strftime_ymd_hms (f_stop_date inp) (f_stop_time inp) in
         case run_query (flag_query vehicle_number) db of
           (Inl e, db1) \<Rightarrow> (Inl e, db1)
         | (Inr arrest_count, db1) \<Rightarrow>
             (let advisory = (if arrest_count > 0 then PriorArrestAlert vehicle_number arrest_count
                              else NoPriorArrests vehicle_number);
                  search_type = (if f_search_conducted inp = 0 then ''No Search''
                                 else f_search_type inp);
                  new_log =
                    \<lparr>nl_stop_datetime = stop_datetime,
                     nl_country_name = f_country_name inp,
                     nl_vehicle_number = vehicle_number,
                     nl_driver_gender = f_driver_gender inp,
                     nl_driver_age = f_driver_age inp,
                     nl_driver_race = f_driver_race inp,
                     nl_violation = f_violation inp,
                     nl_stop_duration = f_stop_duration inp,
                     nl_stop_outcome = f_stop_outcome inp,
                     nl_search_conducted = f_search_conducted inp,
                     nl_search_type = search_type,
                     nl_is_arrested = f_is_arrested inp,
                     nl_drugs_related_stop = f_drugs_related_stop inp\<rparr>
              in case insert_log new_log db1 of
                   (Inl e, db2) \<Rightarrow> (Inr [advisory, ErrorRecordingLog e], db2)
                 | (Inr rowid, db2) \<Rightarrow>
                     (case load_kpis db2 of
                        (Inl e, db3) \<Rightarrow> (Inr [advisory, LogRecorded rowid, ErrorRecordingLog e], db3)
                      | (Inr k, db3) \<Rightarrow> (Inr [advisory, LogRecorded rowid], db3)))))"

text \<open>
  The tuple \<^verbatim>\<open>new_log\<close> that the handler hands to \<^verbatim>\<open>insert_log\<close>, as a function of the
  form (it is what \<open>submit\<close> builds above).
\<close>

definition new_log_of :: "form_input \<Rightarrow> new_log" where
  "new_log_of inp =
     \<lparr>nl_stop_datetime = strftime_ymd_hms (f_stop_date inp) (f_stop_time inp),
      nl_country_name = f_country_name inp,
      nl_vehicle_number = strip (upper (f_vehicle_number inp)),
      nl_driver_gender = f_driver_gender inp,
      nl_driver_age = f_driver_age inp,
      nl_driver_race = f_driver_race inp,
      nl_violation = f_violation inp,
      nl_stop_duration = f_stop_duration inp,
      nl_stop_outcome = f_stop_outcome inp,
      nl_search_conducted = f_search_conducted inp,
      nl_search_type = (if f_search_conducted inp = 0 then ''No Search'' else f_search_type inp),
      nl_is_arrested = f_is_arrested inp,
      nl_drugs_related_stop = f_drugs_related_stop inp\<rparr>"

text \<open>The store right after \<^verbatim>\<open>init_db\<close> on a new file, and a run of submissions.\<close>

definition fresh_db :: db_state where
  "fresh_db = \<lparr>tbl = Some [], last_id = 0, open_conns = 0, executed = [CreateTable], unusable = False\<rparr>"

fun submit_all :: "form_input list \<Rightarrow> db_state \<Rightarrow> db_state" where
  "submit_all [] db = db"
| "submit_all (inp # inps) db = submit_all inps (snd (submit inp db))"

definition rows :: "db_state \<Rightarrow> stop_record list" where
  "rows db = (case tbl db of None \<Rightarrow> [] | Some rs \<Rightarrow> rs)"

text \<open>
  A form as an operator may fill it in: the vehicle of the specification's scenario, typed
  in lower case with blanks around it, an arrest, no search but a search type typed in.
\<close>

definition scenario_input :: form_input where
  "scenario_input =
     \<lparr>f_stop_date = \<lparr>year = 2024, month = 3, day = 9\<rparr>,
      f_stop_time = \<lparr>hour = 7, minute = 5, second = 0\<rparr>,
      f_country_name = ''India'',
      f_vehicle_number = '' rj01ab1234  '',
      f_driver_gender = ''M'',
      f_driver_age = 30,
      f_driver_race = ''Other'',
      f_violation = ''Speeding'',
      f_stop_duration = ''0-15 Min'',
      f_search_conducted = 0,
      f_search_type = ''Frisk'',
      f_stop_outcome = ''Arrest'',
      f_is_arrested = 1,
      f_drugs_related_stop = 0\<rparr>"

section \<open>The KPI row\<close>

text \<open>
  The lines after \<^verbatim>\<open>kpis = load_kpis()\<close>. \<^verbatim>\<open>int(...)\<close> of a NULL (pandas hands it over
  as \<^verbatim>\<open>None\<close>) raises; Python's \<^verbatim>\<open>/\<close> raises on a zero divisor. A conditional
  expression evaluates its condition first and then only the chosen branch. The metrics are
  computed in the order of the source, and the first exception ends the run.
\<close>

datatype py_error = TypeError | ZeroDivisionError

definition py_int :: "int option \<Rightarrow> py_error + int" where
  "py_int v = (case v of None \<Rightarrow> Inl TypeError | Some n \<Rightarrow> Inr n)"

definition py_truediv :: "int \<Rightarrow> int \<Rightarrow> py_error + real" where
  "py_truediv a b = (if b = 0 then Inl ZeroDivisionError else Inr (real_of_int a / real_of_int b))"

definition drug_rate :: "kpis \<Rightarrow> py_error + real" where
  "drug_rate k =
     (if total_stops k > 0 then
        (case py_int (total_drug_stops k) of
           Inl e \<Rightarrow> Inl e
         | Inr d \<Rightarrow>
             (case py_truediv d (total_stops k) of
                Inl e \<Rightarrow> Inl e
              | Inr x \<Rightarrow> Inr (x * 100)))
      else Inr 0)"

record kpi_metrics =
  metric_total_stops :: int
  metric_total_arrests :: int
  metric_drug_rate :: real

definition kpi_row :: "kpis \<Rightarrow> py_error + kpi_metrics" where
  "kpi_row k =
     (case py_int (Some (total_stops k)) of
        Inl e \<Rightarrow> Inl e
      | Inr s \<Rightarrow>
          (case py_int (total_arrests k) of
             Inl e \<Rightarrow> Inl e
           | Inr a \<Rightarrow>
               (case drug_rate k of
                  Inl e \<Rightarrow> Inl e
                | Inr r \<Rightarrow>
                    Inr \<lparr>metric_total_stops = s, metric_total_arrests = a, metric_drug_rate = r\<rparr>)))"

section \<open>Vehicle lookup\<close>

text \<open>
  \<^verbatim>\<open>ORDER BY col DESC\<close>: SQLite compares TEXT bytewise and puts NULL below every value.
  The order among equal keys is not fixed by SQLite; the table order is kept here.
\<close>

definition order_by_desc :: "('a \<Rightarrow> 'k::linorder) \<Rightarrow> 'a list \<Rightarrow> 'a list" where
  "order_by_desc f xs = rev (sort_key f (rev xs))"

text \<open>
  \<^verbatim>\<open>SELECT * FROM police_stop_logs WHERE vehicle_number = ? ORDER BY stop_datetime DESC LIMIT 200\<close>
\<close>

definition vehicle_history :: "string \<Rightarrow> stop_record list \<Rightarrow> stop_record list" where
  "vehicle_history v rs =
     take 200 (order_by_desc stop_datetime (filter (\<lambda>r. vehicle_number r = Some v) rs))"

datatype lookup_result = EnterVehicleNumber | NoRecordsFound | History "stop_record list"

definition lookup_vehicle :: "string \<Rightarrow> db_state \<Rightarrow> (db_error + lookup_result) \<times> db_state" where
  "lookup_vehicle text_input db =
     (let vehicle_lookup = strip (upper text_input) in
      if vehicle_lookup = [] then (Inr EnterVehicleNumber, db)
      else
        (case run_query (vehicle_history vehicle_lookup) db of
           (Inl e, db1) \<Rightarrow> (Inl e, db1)
         | (Inr df_hist, db1) \<Rightarrow>
             (Inr (if df_hist = [] then NoRecordsFound else History df_hist), db1)))"

text \<open>Three stops, two of them of the vehicle KA05MN7777, stored oldest first.\<close>

definition stop_at :: "int \<Rightarrow> string \<Rightarrow> string \<Rightarrow> stop_record" where
  "stop_at i ts v =
     (row_of i (new_log_of scenario_input))\<lparr>stop_datetime := Some ts, vehicle_number := Some v\<rparr>"

definition three_stops :: db_state where
  "three_stops =
     fresh_db\<lparr>tbl := Some [stop_at 1 ''2024-03-09 07:05:00'' ''KA05MN7777'',
                            stop_at 2 ''2024-03-10 18:30:00'' ''RJ01AB1234'',
                            stop_at 3 ''2024-11-02 23:59:59'' ''KA05MN7777''],
              last_id := 3\<rparr>"

section \<open>The report catalog as text, and the country filter\<close>

text \<open>
  The values of the dictionary \<^verbatim>\<open>SQL_QUERIES\<close>, character for character (each starts
  with the line break after the opening quotes and ends with the indentation before the
  closing ones).
\<close>

definition q_top_drug_vehicles :: string where
  "q_top_drug_vehicles = ''
        SELECT vehicle_number, COUNT(*) AS drug_stop_count
        FROM police_stop_logs
        WHERE drugs_related_stop = 1
        GROUP BY vehicle_number
        ORDER BY drug_stop_count DESC
        LIMIT 10;
    ''"

definition q_most_searched_vehicles :: string where
  "q_most_searched_vehicles = ''
        SELECT vehicle_number, COUNT(*) AS search_count
        FROM police_stop_logs
        WHERE search_conducted = 1
        GROUP BY vehicle_number
        ORDER BY search_count DESC
        LIMIT 20;
    ''"

definition q_age_group_arrest_rate :: string where
  "q_age_group_arrest_rate = ''
        WITH age_buckets AS (
          SELECT
            CASE
              WHEN driver_age < 18 THEN '<18'
              WHEN driver_age BETWEEN 18 AND 24 THEN '18-24'
              WHEN driver_age BETWEEN 25 AND 34 THEN '25-34'
              WHEN driver_age BETWEEN 35 AND 44 THEN '35-44'
              WHEN driver_age BETWEEN 45 AND 54 THEN '45-54'
              WHEN driver_age >= 55 THEN '55+'
              ELSE 'Unknown'
            END AS age_group,
            is_arrested
          FROM police_stop_logs
        )
        SELECT age_group,
               COUNT(*) AS total_stops,
               SUM(CASE WHEN is_arrested = 1 THEN 1 ELSE 0 END) AS arrests,
               CAST(SUM(CASE WHEN is_arrested = 1 THEN 1 ELSE 0 END) AS REAL) * 100.0 / COUNT(*) AS arrest_rate_pct
        FROM age_buckets
        GROUP BY age_group
        ORDER BY arrest_rate_pct DESC;
    ''"

definition q_gender_by_country :: string where
  "q_gender_by_country = ''
        SELECT country_name, driver_gender, COUNT(*) AS stops
        FROM police_stop_logs
        GROUP BY country_name, driver_gender
        ORDER BY country_name, stops DESC;
    ''"

definition q_race_gender_search_rate :: string where
  "q_race_gender_search_rate = ''
        SELECT driver_race, driver_gender, COUNT(*) AS total_stops,
               SUM(CASE WHEN search_conducted = 1 THEN 1 ELSE 0 END) AS searches,
               CAST(SUM(CASE WHEN search_conducted = 1 THEN 1 ELSE 0 END) AS REAL) * 100.0 / COUNT(*) AS search_rate_pct
        FROM police_stop_logs
        GROUP BY driver_race, driver_gender
        HAVING COUNT(*) >= 20
        ORDER BY search_rate_pct DESC
        LIMIT 10;
    ''"

definition q_stops_by_hour :: string where
  "q_stops_by_hour = ''
        SELECT CAST(strftime('%H', stop_datetime) AS INTEGER) AS hour_of_day, COUNT(*) AS stops
        FROM police_stop_logs
        WHERE stop_datetime IS NOT NULL
        GROUP BY hour_of_day
        ORDER BY stops DESC;
    ''"

definition q_avg_duration :: string where
  "q_avg_duration = ''
        WITH mapped AS (
          SELECT violation,
                 CASE stop_duration
                   WHEN '0-15 Min' THEN 7.5
                   WHEN '16-30 Min' THEN 23.0
                   WHEN '>30 Min' THEN 45.0
                   ELSE NULL
                 END AS duration_minutes
          FROM police_stop_logs
        )
        SELECT violation, COUNT(duration_minutes) AS n_samples, AVG(duration_minutes) AS avg_duration_minutes
        FROM mapped
        GROUP BY violation
        ORDER BY avg_duration_minutes DESC;
    ''"

definition q_night_arrests :: string where
  "q_night_arrests = ''
        WITH flagged AS (
          SELECT *, CAST(strftime('%H', stop_datetime) AS INTEGER) AS hour
          FROM police_stop_logs
        )
        SELECT CASE WHEN hour >= 20 OR hour <= 4 THEN 'night' ELSE 'day' END AS period,
               COUNT(*) AS total_stops,
               SUM(CASE WHEN is_arrested = 1 THEN 1 ELSE 0 END) AS arrests,
               CAST(SUM(CASE WHEN is_arrested = 1 THEN 1 ELSE 0 END) AS REAL) * 100.0 / COUNT(*) AS arrest_rate_pct
        FROM flagged
        GROUP BY period
        ORDER BY arrest_rate_pct DESC;
    ''"

definition q_violation_search_arrest :: string where
  "q_violation_search_arrest = ''
        SELECT violation, COUNT(*) AS total_stops,
               SUM(CASE WHEN search_conducted = 1 THEN 1 ELSE 0 END) AS searches,
               SUM(CASE WHEN is_arrested = 1 THEN 1 ELSE 0 END) AS arrests,
               CAST(SUM(CASE WHEN search_conducted = 1 THEN 1 ELSE 0 END) AS REAL) * 100.0 / COUNT(*) AS search_rate_pct,
               CAST(SUM(CASE WHEN is_arrested = 1 THEN 1 ELSE 0 END) AS REAL) * 100.0 / COUNT(*) AS arrest_rate_pct
        FROM police_stop_logs
        GROUP BY violation
        HAVING COUNT(*) > 10
        ORDER BY arrest_rate_pct DESC, search_rate_pct DESC;
    ''"

definition q_violations_under25 :: string where
  "q_violations_under25 = ''
        SELECT violation,
               COUNT(*) AS stops_under25,
               CAST(COUNT(*) AS REAL) / (SELECT COUNT(*) FROM police_stop_logs WHERE driver_age < 25) * 100.0 AS pct_of_under25_stops
        FROM police_stop_logs
        WHERE driver_age < 25
        GROUP BY violation
        ORDER BY stops_under25 DESC
        LIMIT 20;
    ''"

definition q_violations_rare :: string where
  "q_violations_rare = ''
        SELECT violation, COUNT(*) AS total_stops,
               CAST(SUM(CASE WHEN search_conducted = 1 THEN 1 ELSE 0 END) AS REAL) * 100.0 / COUNT(*) AS search_rate_pct,
               CAST(SUM(CASE WHEN is_arrested = 1 THEN 1 ELSE 0 END) AS REAL) * 100.0 / COUNT(*) AS arrest_rate_pct
        FROM police_stop_logs
        GROUP BY violation
        HAVING COUNT(*) > 50
        ORDER BY (search_rate_pct + arrest_rate_pct) ASC
        LIMIT 10;
    ''"

definition q_country_drug_rate :: string where
  "q_country_drug_rate = ''
        SELECT country_name, COUNT(*) AS total_stops,
               SUM(CASE WHEN drugs_related_stop = 1 THEN 1 ELSE 0 END) AS drug_stops,
               CAST(SUM(CASE WHEN drugs_related_stop = 1 THEN 1 ELSE 0 END) AS REAL) * 100.0 / COUNT(*) AS drug_rate_pct
        FROM police_stop_logs
        GROUP BY country_name
        HAVING COUNT(*) > 50
        ORDER BY drug_rate_pct DESC
        LIMIT 10;
    ''"

definition q_country_violation_arrest :: string where
  "q_country_violation_arrest = ''
        SELECT country_name, violation, COUNT(*) AS total_stops,
               SUM(CASE WHEN is_arrested = 1 THEN 1 ELSE 0 END) AS arrests,
               CAST(SUM(CASE WHEN is_arrested = 1 THEN 1 ELSE 0 END) AS REAL) * 100.0 / COUNT(*) AS arrest_rate_pct
        FROM police_stop_logs
        GROUP BY country_name, violation
        HAVING COUNT(*) >= 10
        ORDER BY arrest_rate_pct DESC
        LIMIT 50;
    ''"

definition q_country_searches :: string where
  "q_country_searches = ''
        SELECT country_name,
               SUM(CASE WHEN search_conducted = 1 THEN 1 ELSE 0 END) AS searches,
               COUNT(*) AS total_stops,
               CAST(SUM(CASE WHEN search_conducted = 1 THEN 1 ELSE 0 END) AS REAL) * 100.0 / COUNT(*) AS search_rate_pct
        FROM police_stop_logs
        GROUP BY country_name
        ORDER BY searches DESC
        LIMIT 10;
    ''"

definition q_yearly_breakdown :: string where
  "q_yearly_breakdown = ''
        WITH parsed AS (
          SELECT country_name, CAST(strftime('%Y', stop_datetime) AS INTEGER) AS year, is_arrested
          FROM police_stop_logs
        )
        SELECT country_name, year,
               COUNT(*) AS stops,
               SUM(CASE WHEN is_arrested = 1 THEN 1 ELSE 0 END) AS arrests,
               CAST(SUM(CASE WHEN is_arrested = 1 THEN 1 ELSE 0 END) AS REAL) * 100.0 / COUNT(*) AS arrest_rate_pct,
               SUM(COUNT(*)) OVER (PARTITION BY country_name ORDER BY year ROWS BETWEEN UNBOUNDED PRECEDING AND CURRENT ROW) AS running_stops
        FROM parsed
        GROUP BY country_name, year
        ORDER BY country_name, year;
    ''"

definition q_trends_age_race :: string where
  "q_trends_age_race = ''
        WITH age_grouped AS (
          SELECT *,
            CASE
              WHEN driver_age < 18 THEN '<18'
              WHEN driver_age BETWEEN 18 AND 24 THEN '18-24'
              WHEN driver_age BETWEEN 25 AND 34 THEN '25-34'
              WHEN driver_age BETWEEN 35 AND 44 THEN '35-44'
              WHEN driver_age BETWEEN 45 AND 54 THEN '45-54'
              WHEN driver_age >= 55 THEN '55+'
              ELSE 'Unknown' END AS age_group
          FROM police_stop_logs
        )
        SELECT age_group, driver_race, violation,
               COUNT(*) AS stops,
               CAST(COUNT(*) AS REAL) * 100.0 / (SELECT COUNT(*) FROM police_stop_logs WHERE driver_age IS NOT NULL AND driver_age >= 0) AS pct_of_all_stops
        FROM age_grouped
        GROUP BY age_group, driver_race, violation
        ORDER BY age_group, stops DESC
        LIMIT 200;
    ''"

definition q_stops_year_month_hour :: string where
  "q_stops_year_month_hour = ''
        SELECT CAST(strftime('%Y', stop_datetime) AS INTEGER) AS year,
               CAST(strftime('%m', stop_datetime) AS INTEGER) AS month,
               CAST(strftime('%H', stop_datetime) AS INTEGER) AS hour,
               COUNT(*) AS stops
        FROM police_stop_logs
        GROUP BY year, month, hour
        ORDER BY year DESC, month DESC, hour;
    ''"

definition q_ranked_violations :: string where
  "q_ranked_violations = ''
        WITH stats AS (
          SELECT violation, COUNT(*) AS total,
                 SUM(CASE WHEN search_conducted = 1 THEN 1 ELSE 0 END) AS searches,
                 SUM(CASE WHEN is_arrested = 1 THEN 1 ELSE 0 END) AS arrests,
                 CAST(SUM(CASE WHEN search_conducted = 1 THEN 1 ELSE 0 END) AS REAL) * 100.0 / COUNT(*) AS search_rate_pct,
                 CAST(SUM(CASE WHEN is_arrested = 1 THEN 1 ELSE 0 END) AS REAL) * 100.0 / COUNT(*) AS arrest_rate_pct
          FROM police_stop_logs
          GROUP BY violation
          HAVING COUNT(*) > 30
        )
        SELECT *, RANK() OVER (ORDER BY arrest_rate_pct DESC) AS rank_by_arrest_rate,
                  RANK() OVER (ORDER BY search_rate_pct DESC) AS rank_by_search_rate
        FROM stats
        ORDER BY rank_by_arrest_rate, rank_by_search_rate
        LIMIT 30;
    ''"

definition q_demographics_by_country :: string where
  "q_demographics_by_country = ''
        SELECT country_name, driver_gender,
               CASE
                 WHEN driver_age < 18 THEN '<18'
                 WHEN driver_age BETWEEN 18 AND 24 THEN '18-24'
                 WHEN driver_age BETWEEN 25 AND 34 THEN '25-34'
                 WHEN driver_age BETWEEN 35 AND 44 THEN '35-44'
                 WHEN driver_age BETWEEN 45 AND 54 THEN '45-54'
                 WHEN driver_age >= 55 THEN '55+'
                 ELSE 'Unknown'
               END AS age_group,
               driver_race,
               COUNT(*) AS stops
        FROM police_stop_logs
        GROUP BY country_name, driver_gender, age_group, driver_race
        ORDER BY country_name, stops DESC
        LIMIT 500;
    ''"

definition q_top5_arrest_rate :: string where
  "q_top5_arrest_rate = ''
        SELECT violation, COUNT(*) AS total_stops,
               SUM(CASE WHEN is_arrested = 1 THEN 1 ELSE 0 END) AS arrests,
               CAST(SUM(CASE WHEN is_arrested = 1 THEN 1 ELSE 0 END) AS REAL) * 100.0 / COUNT(*) AS arrest_rate_pct
        FROM police_stop_logs
        GROUP BY violation
        HAVING COUNT(*) >= 30
        ORDER BY arrest_rate_pct DESC
        LIMIT 5;
    ''"

definition SQL_QUERIES :: "(string \<times> string) list" where
  "SQL_QUERIES =
     [(''Top 10 vehicles in drug-related stops'', q_top_drug_vehicles),
      (''Most frequently searched vehicles (Top 20)'', q_most_searched_vehicles),
      (''Driver age group with highest arrest rate'', q_age_group_arrest_rate),
      (''Gender distribution by country'', q_gender_by_country),
      (''Race+Gender combination with highest search rate'', q_race_gender_search_rate),
      (''Stops by hour of day'', q_stops_by_hour),
      (''Average stop duration for each violation (minutes)'', q_avg_duration),
      (''Are night stops more likely to lead to arrests?'', q_night_arrests),
      (''Violations most associated with searches or arrests'', q_violation_search_arrest),
      (''Violations common among drivers <25'', q_violations_under25),
      (''Violations that rarely result in search or arrest'', q_violations_rare),
      (''Countries with highest drug-related stop rate'', q_country_drug_rate),
      (''Arrest rate by country and violation'', q_country_violation_arrest),
      (''Country with most searches conducted'', q_country_searches),
      (''Yearly breakdown of stops and arrests by country'', q_yearly_breakdown),
      (''Driver violation trends by age & race'', q_trends_age_race),
      (''Stops by year, month, hour'', q_stops_year_month_hour),
      (''Violations with high search & arrest rates (ranked)'', q_ranked_violations),
      (''Driver demographics by country'', q_demographics_by_country),
      (''Top 5 violations with highest arrest rates'', q_top5_arrest_rate)]"

text \<open>
  Python's substring test \<^verbatim>\<open>p in s\<close>, \<^verbatim>\<open>s.find(p)\<close> and \<^verbatim>\<open>s.replace(old, new, 1)\<close>, which
  replaces the leftmost occurrence only.
\<close>

fun starts_with :: "string \<Rightarrow> string \<Rightarrow> bool" where
  "starts_with [] s = True"
| "starts_with (c # p) [] = False"
| "starts_with (c # p) (d # s) = (c = d \<and> starts_with p s)"

fun find_str :: "string \<Rightarrow> string \<Rightarrow> nat option" where
  "find_str p [] = (if p = [] then Some 0 else None)"
| "find_str p (c # s) =
     (if starts_with p (c # s) then Some 0 else map_option Suc (find_str p s))"

definition contains :: "string \<Rightarrow> string \<Rightarrow> bool" where
  "contains p s = (find_str p s \<noteq> None)"

definition replace_first :: "string \<Rightarrow> string \<Rightarrow> string \<Rightarrow> string" where
  "replace_first old new s =
     (case find_str old s of
        None \<Rightarrow> s
      | Some i \<Rightarrow> take i s @ new @ drop (i + length old) s)"

text \<open>
  The rewrite between the report selection and the button (app.py, "simple param logic"):
  the text and the parameter list after it.
\<close>

definition country_filter_rewrite :: "string \<Rightarrow> string \<Rightarrow> string \<times> string list" where
  "country_filter_rewrite query_to_run country_filter =
     (if contains ''country_name'' query_to_run \<and> country_filter \<noteq> [] then
        (if contains ''WHERE'' (upper query_to_run)
         then replace_first ''WHERE'' ''WHERE country_name = ? AND '' query_to_run
         else replace_first ''GROUP BY'' ''WHERE country_name = ? GROUP BY'' query_to_run,
         [country_filter])
      else (query_to_run, []))"

text \<open>
  What the button hands to \<^verbatim>\<open>run_query\<close>: the text, and
  \<^verbatim>\<open>params if params else None\<close>.
\<close>

definition analytics_call :: "string \<Rightarrow> string \<Rightarrow> string \<times> string list option" where
  "analytics_call query_to_run country_filter =
     (case country_filter_rewrite query_to_run country_filter of
        (sql, params) \<Rightarrow> (sql, if params = [] then None else Some params))"

section \<open>Derived buckets of the report catalog\<close>

text \<open>
  SQL comparisons have three truth values; \<open>None\<close> is unknown. A \<^verbatim>\<open>CASE\<close> takes the first
  \<^verbatim>\<open>WHEN\<close> whose condition is true, and the \<^verbatim>\<open>ELSE\<close> value when none is.
\<close>

definition sql_lt :: "int option \<Rightarrow> int \<Rightarrow> bool option" where
  "sql_lt a n = map_option (\<lambda>x. x < n) a"

definition sql_ge :: "int option \<Rightarrow> int \<Rightarrow> bool option" where
  "sql_ge a n = map_option (\<lambda>x. x \<ge> n) a"

definition sql_between :: "int option \<Rightarrow> int \<Rightarrow> int \<Rightarrow> bool option" where
  "sql_between a lo hi = map_option (\<lambda>x. lo \<le> x \<and> x \<le> hi) a"

fun sql_case :: "(bool option \<times> 'a) list \<Rightarrow> 'a \<Rightarrow> 'a" where
  "sql_case [] els = els"
| "sql_case ((c, v) # ws) els = (if c = Some True then v else sql_case ws els)"

text \<open>The \<^verbatim>\<open>WHEN\<close> arms of the age bucket, as written in the three demographic reports.\<close>

definition age_whens :: "int option \<Rightarrow> (bool option \<times> string) list" where
  "age_whens age =
     [(sql_lt age 18, ''<18''),
      (sql_between age 18 24, ''18-24''),
      (sql_between age 25 34, ''25-34''),
      (sql_between age 35 44, ''35-44''),
      (sql_between age 45 54, ''45-54''),
      (sql_ge age 55, ''55+'')]"

definition age_group :: "int option \<Rightarrow> string" where
  "age_group age = sql_case (age_whens age) ''Unknown''"

section \<open>Rate reports of the catalog\<close>

text \<open>
  \<^verbatim>\<open>GROUP BY\<close>: one group for each distinct key, holding the rows with that key (NULL keys
  form one group). \<^verbatim>\<open>COUNT(*)\<close> counts the rows of the group. The conditional sum is
  \<open>sum_flag\<close> above. \<^verbatim>\<open>CAST(SUM(...) AS REAL) * 100.0 / COUNT(*)\<close> is taken over the reals
  here (SQLite computes it in double precision); a NULL operand or a zero divisor gives
  NULL.
\<close>

definition group_by :: "('r \<Rightarrow> 'k) \<Rightarrow> 'r list \<Rightarrow> ('k \<times> 'r list) list" where
  "group_by key rs = map (\<lambda>k. (k, filter (\<lambda>r. key r = k) rs)) (remdups (map key rs))"

definition count_star :: "'r list \<Rightarrow> int" where
  "count_star g = int (length g)"

definition rate_pct :: "(stop_record \<Rightarrow> int option) \<Rightarrow> stop_record list \<Rightarrow> real option" where
  "rate_pct f g =
     (case sum_flag f g of
        None \<Rightarrow> None
      | Some s \<Rightarrow> if count_star g = 0 then None
                  else Some (real_of_int s * 100 / real_of_int (count_star g)))"

definition order_by_asc :: "('a \<Rightarrow> 'k::linorder) \<Rightarrow> 'a list \<Rightarrow> 'a list" where
  "order_by_asc f xs = sort_key f xs"

definition sql_le :: "int option \<Rightarrow> int \<Rightarrow> bool option" where
  "sql_le a n = map_option (\<lambda>x. x \<le> n) a"

definition sql_or :: "bool option \<Rightarrow> bool option \<Rightarrow> bool option" where
  "sql_or a b =
     (if a = Some True \<or> b = Some True then Some True
      else if a = Some False \<and> b = Some False then Some False
      else None)"




text \<open>
  "Are night stops more likely to lead to arrests?". The hour is
  \<^verbatim>\<open>CAST(strftime('%H', stop_datetime) AS INTEGER)\<close>; SQLite's function is the parameter
  \<open>hour_of\<close>.
\<close>

definition period :: "int option \<Rightarrow> string" where
  "period h = sql_case [(sql_or (sql_ge h 20) (sql_le h 4), ''night'')] ''day''"




text \<open>"Countries with highest drug-related stop rate": \<^verbatim>\<open>HAVING COUNT(*) > 50\<close>, \<^verbatim>\<open>LIMIT 10\<close>\<close>

definition country_drug_rate ::
  "stop_record list \<Rightarrow> (string option \<times> int \<times> int option \<times> real option) list" where
  "country_drug_rate rs =
     take 10
       (order_by_desc (\<lambda>(k, total_stops, drug_stops, drug_rate_pct). drug_rate_pct)
          (map (\<lambda>(k, g). (k, count_star g, sum_flag drugs_related_stop g, rate_pct drugs_related_stop g))
             (filter (\<lambda>(k, g). count_star g > 50) (group_by country_name rs))))"








text \<open>The scenario of the specification: 60 stops in India, 5 of them drug-related.\<close>

definition india_stop :: "int \<Rightarrow> stop_record" where
  "india_stop drugs = (row_of 0 (new_log_of scenario_input))\<lparr>drugs_related_stop := Some drugs\<rparr>"


section \<open>Dates: what the form stores and what the reports read\<close>

text \<open>
  The date and time widgets hand over a \<^verbatim>\<open>datetime.date\<close> and a \<^verbatim>\<open>datetime.time\<close>, which are
  always a day of the calendar and a time of day.
\<close>

definition leap_year :: "nat \<Rightarrow> bool" where
  "leap_year y = (y mod 4 = 0 \<and> (y mod 100 \<noteq> 0 \<or> y mod 400 = 0))"

definition days_in_month :: "nat \<Rightarrow> nat \<Rightarrow> nat" where
  "days_in_month y m =
     (if m = 2 then (if leap_year y then 29 else 28)
      else if m = 4 \<or> m = 6 \<or> m = 9 \<or> m = 11 then 30
      else 31)"

definition valid_date :: "py_date \<Rightarrow> bool" where
  "valid_date d = (1 \<le> year d \<and> year d \<le> 9999 \<and> 1 \<le> month d \<and> month d \<le> 12
                   \<and> 1 \<le> day d \<and> day d \<le> days_in_month (year d) (month d))"

definition valid_time :: "py_time \<Rightarrow> bool" where
  "valid_time t = (hour t \<le> 23 \<and> minute t \<le> 59 \<and> second t \<le> 59)"

text \<open>
  SQLite's \<^verbatim>\<open>strftime\<close> on a stored text, as documented for the time-value format
  \<^verbatim>\<open>YYYY-MM-DD HH:MM:SS\<close>: the text is read field by field, each field all digits and in
  range, and the requested field is printed zero-padded. SQLite also reads other
  formats and rolls over a day beyond the end of its month; for those texts this model
  answers NULL, and nothing is claimed about them.
\<close>

definition is_digit :: "char \<Rightarrow> bool" where
  "is_digit c = (let n = (of_char c :: nat) in 48 \<le> n \<and> n \<le> 57)"

definition digit_val :: "char \<Rightarrow> nat" where
  "digit_val c = (of_char c :: nat) - 48"

definition num :: "string \<Rightarrow> nat option" where
  "num s = (if s \<noteq> [] \<and> list_all is_digit s
            then Some (foldl (\<lambda>a c. 10 * a + digit_val c) 0 s) else None)"

record date_time =
  dt_date :: py_date
  dt_time :: py_time

definition sqlite_datetime :: "string \<Rightarrow> date_time option" where
  "sqlite_datetime s =
     (if length s = 19 \<and> s ! 4 = CHR ''-'' \<and> s ! 7 = CHR ''-'' \<and> s ! 10 = CHR '' ''
         \<and> s ! 13 = CHR '':'' \<and> s ! 16 = CHR '':''
      then
        (case (num (take 4 s), num (take 2 (drop 5 s)), num (take 2 (drop 8 s)),
               num (take 2 (drop 11 s)), num (take 2 (drop 14 s)), num (take 2 (drop 17 s))) of
           (Some Y, Some M, Some D, Some h, Some m, Some sec) \<Rightarrow>
             (let d = \<lparr>year = Y, month = M, day = D\<rparr>;
                  t = \<lparr>hour = h, minute = m, second = sec\<rparr>
              in if 1 \<le> M \<and> M \<le> 12 \<and> 1 \<le> D \<and> D \<le> days_in_month Y M \<and> valid_time t
                 then Some \<lparr>dt_date = d, dt_time = t\<rparr> else None)
         | _ \<Rightarrow> None)
      else None)"

definition fmt4 :: "nat \<Rightarrow> string" where
  "fmt4 n = [digit (n div 1000), digit (n div 100), digit (n div 10), digit n]"

text \<open>\<^verbatim>\<open>strftime('%Y' | '%m' | '%H', x)\<close>; NULL for NULL and for a text that is no time value.\<close>

definition sqlite_strftime :: "string \<Rightarrow> string option \<Rightarrow> string option" where
  "sqlite_strftime f x =
     (case x of
        None \<Rightarrow> None
      | Some s \<Rightarrow>
          (case sqlite_datetime s of
             None \<Rightarrow> None
           | Some dt \<Rightarrow>
               if f = ''%Y'' then Some (fmt4 (year (dt_date dt)))
               else if f = ''%m'' then Some (fmt2 (month (dt_date dt)))
               else if f = ''%H'' then Some (fmt2 (hour (dt_time dt)))
               else None))"

text \<open>
  \<^verbatim>\<open>CAST(text AS INTEGER)\<close>: the value of the leading digits, 0 when there are none, NULL
  for NULL (sign and leading blanks do not occur in what \<^verbatim>\<open>strftime\<close> prints).
\<close>

definition cast_integer :: "string option \<Rightarrow> int option" where
  "cast_integer x =
     map_option (\<lambda>s. int (foldl (\<lambda>a c. 10 * a + digit_val c) 0 (takeWhile is_digit s))) x"

text \<open>The three derivations of "Stops by year, month, hour" (and of the other time reports).\<close>

definition sql_year :: "string option \<Rightarrow> int option" where
  "sql_year x = cast_integer (sqlite_strftime ''%Y'' x)"

definition sql_month :: "string option \<Rightarrow> int option" where
  "sql_month x = cast_integer (sqlite_strftime ''%m'' x)"

definition sql_hour :: "string option \<Rightarrow> int option" where
  "sql_hour x = cast_integer (sqlite_strftime ''%H'' x)"


section \<open>Properties of the ingestion path\<close>

lemma run_query_ok: "\<not> unusable db \<Longrightarrow> tbl db = Some rs \<Longrightarrow>
   run_query q db = (Inr (q rs), db\<lparr>executed := Select # executed db\<rparr>)"
  by (simp add: run_query_def get_db_connection_def conn_close_def execute_def)

lemma run_query_Inr:
  "run_query q db = (Inr x, db') \<Longrightarrow> x = q (rows db) \<and> tbl db' = tbl db \<and> unusable db' = unusable db"
  by (auto simp add: run_query_def get_db_connection_def conn_close_def execute_def rows_def Let_def
           split: if_splits option.splits)

lemma run_query_tbl: "tbl (snd (run_query q db)) = tbl db"
  by (auto simp add: run_query_def get_db_connection_def conn_close_def execute_def Let_def
           split: if_splits option.splits)

lemma insert_log_ok: "\<not> unusable db \<Longrightarrow> tbl db = Some rs \<Longrightarrow>
   insert_log v db = (Inr (last_id db + 1),
      db\<lparr>tbl := Some (rs @ [row_of (last_id db + 1) v]), last_id := last_id db + 1,
         executed := Insert # executed db\<rparr>)"
  by (simp add: insert_log_def get_db_connection_def conn_close_def execute_def Let_def)

lemma insert_log_tbl:
  "tbl (snd (insert_log v db)) = tbl db \<or>
   (\<exists>rs i. tbl db = Some rs \<and> tbl (snd (insert_log v db)) = Some (rs @ [row_of i v]))"
  by (auto simp add: insert_log_def get_db_connection_def conn_close_def execute_def Let_def
           split: if_splits option.splits)

lemma submit_tbl:
  "tbl (snd (submit inp db)) = tbl db \<or>
   (\<exists>rs i. tbl db = Some rs \<and> tbl (snd (submit inp db)) = Some (rs @ [row_of i (new_log_of inp)]))"
proof (cases "strip (upper (f_vehicle_number inp)) = [] \<or> length (strip (upper (f_vehicle_number inp))) < 4")
  case True
  then show ?thesis by (simp add: submit_def Let_def)
next
  case False
  obtain r1 db1 where q: "run_query (flag_query (strip (upper (f_vehicle_number inp)))) db = (r1, db1)"
    by (cases "run_query (flag_query (strip (upper (f_vehicle_number inp)))) db")
  have t1: "tbl db1 = tbl db" using run_query_tbl [of "flag_query (strip (upper (f_vehicle_number inp)))" db] q by simp
  show ?thesis
  proof (cases r1)
    case (Inl e)
    then show ?thesis using False q t1 by (simp add: submit_def Let_def)
  next
    case (Inr n)
    obtain r2 db2 where i: "insert_log (new_log_of inp) db1 = (r2, db2)"
      by (cases "insert_log (new_log_of inp) db1")
    have t2: "tbl db2 = tbl db \<or> (\<exists>rs i. tbl db = Some rs \<and> tbl db2 = Some (rs @ [row_of i (new_log_of inp)]))"
      using insert_log_tbl [of "new_log_of inp" db1] i t1 by simp
    have t3: "tbl (snd (load_kpis db2)) = tbl db2"
      by (simp add: load_kpis_def run_query_tbl)
    have "tbl (snd (submit inp db)) = tbl db2"
      using False q Inr i t3
      by (cases r2; cases "load_kpis db2"; cases "fst (load_kpis db2)")
         (auto simp add: submit_def Let_def new_log_of_def)
    then show ?thesis using t2 by simp
  qed
qed

lemma submit_ok:
  assumes "\<not> unusable db" and "tbl db = Some rs"
    and "4 \<le> length (strip (upper (f_vehicle_number inp)))"
  shows "submit inp db =
     (Inr [if flag_query (strip (upper (f_vehicle_number inp))) rs > 0
           then PriorArrestAlert (strip (upper (f_vehicle_number inp))) (flag_query (strip (upper (f_vehicle_number inp))) rs)
           else NoPriorArrests (strip (upper (f_vehicle_number inp))),
           LogRecorded (last_id db + 1)],
      db\<lparr>tbl := Some (rs @ [row_of (last_id db + 1) (new_log_of inp)]),
         last_id := last_id db + 1,
         executed := Select # Insert # Select # executed db\<rparr>)"
proof -
  from assms(3) have nz: "strip (upper (f_vehicle_number inp)) \<noteq> []" by auto
  show ?thesis
    using assms nz
    by (simp add: submit_def Let_def run_query_ok insert_log_ok load_kpis_def new_log_of_def)
qed

lemma submit_advisory:
  assumes "4 \<le> length (strip (upper (f_vehicle_number inp)))"
    and "submit inp db = (Inr msgs, db')"
  shows "\<exists>rest. msgs =
     (if flag_query (strip (upper (f_vehicle_number inp))) (rows db) > 0
      then PriorArrestAlert (strip (upper (f_vehicle_number inp))) (flag_query (strip (upper (f_vehicle_number inp))) (rows db))
      else NoPriorArrests (strip (upper (f_vehicle_number inp)))) # rest"
proof -
  from assms(1) have nz: "strip (upper (f_vehicle_number inp)) \<noteq> []" by auto
  obtain r1 db1 where q: "run_query (flag_query (strip (upper (f_vehicle_number inp)))) db = (r1, db1)"
    by (cases "run_query (flag_query (strip (upper (f_vehicle_number inp)))) db")
  show ?thesis
  proof (cases r1)
    case (Inl e)
    then show ?thesis using assms nz q by (simp add: submit_def Let_def)
  next
    case (Inr n)
    have n: "n = flag_query (strip (upper (f_vehicle_number inp))) (rows db)"
      using run_query_Inr [of "flag_query (strip (upper (f_vehicle_number inp)))" db n db1] q Inr by simp
    obtain r2 db2 where i: "insert_log (new_log_of inp) db1 = (r2, db2)"
      by (cases "insert_log (new_log_of inp) db1")
    show ?thesis
      using assms nz q Inr i n
      by (cases r2; cases "load_kpis db2"; cases "fst (load_kpis db2)")
         (auto simp add: submit_def Let_def new_log_of_def split: if_splits)
  qed
qed

lemma submit_rows:
  "rows (snd (submit inp db)) = rows db \<or>
   (\<exists>i. rows (snd (submit inp db)) = rows db @ [row_of i (new_log_of inp)])"
  using submit_tbl [of inp db] by (auto simp add: rows_def)

lemma row_of_consistent:
  "search_conducted (row_of i (new_log_of inp)) = Some 0 \<Longrightarrow>
   search_type (row_of i (new_log_of inp)) = Some ''No Search''"
  by (simp add: row_of_def new_log_of_def split: if_splits)

lemma submit_all_inv:
  "(\<forall>r \<in> set (rows db). search_conducted r = Some 0 \<longrightarrow> search_type r = Some ''No Search'') \<Longrightarrow>
   (\<forall>r \<in> set (rows (submit_all inps db)). search_conducted r = Some 0 \<longrightarrow> search_type r = Some ''No Search'')"
proof (induction inps arbitrary: db)
  case Nil
  then show ?case by simp
next
  case (Cons inp inps)
  have "\<forall>r \<in> set (rows (snd (submit inp db))). search_conducted r = Some 0 \<longrightarrow> search_type r = Some ''No Search''"
    using submit_rows [of inp db] Cons.prems row_of_consistent by auto
  then show ?case using Cons.IH by simp
qed

lemma scenario_vehicle: "strip (upper (f_vehicle_number scenario_input)) = ''RJ01AB1234''"
  unfolding scenario_input_def by code_simp

text \<open>
  Claim C3. When a submission passes validation and the handler runs to its end, the
  first message is the prior-arrest advisory: it carries the number of rows that were in
  the table before the insert whose vehicle number is the normalised input and whose
  \<open>is_arrested\<close> is 1; zero is reported as "no prior arrests", a positive count as an
  alert with that count. On the store right after initialisation the advisory is "no
  prior arrests" for every vehicle, and after one submission with \<open>is_arrested = 1\<close> a
  second submission for the same vehicle is alerted with the count 1.
\<close>

theorem prior_arrest_advisory:
  fixes inp later :: form_input and db db' :: db_state
  defines "v \<equiv> strip (upper (f_vehicle_number inp))"
  defines "n \<equiv> length (filter (\<lambda>r. vehicle_number r = Some v \<and> is_arrested r = Some 1) (rows db))"
  shows "(4 \<le> length v \<and> submit inp db = (Inr msgs, db') \<longrightarrow>
            (\<exists>rest. msgs = (if n = 0 then NoPriorArrests v else PriorArrestAlert v n) # rest))
       \<and> (4 \<le> length v \<longrightarrow> (\<exists>rest. fst (submit inp fresh_db) = Inr (NoPriorArrests v # rest)))
       \<and> (4 \<le> length v \<and> f_is_arrested inp = 1 \<and> strip (upper (f_vehicle_number later)) = v \<longrightarrow>
            (\<exists>rest. fst (submit later (snd (submit inp fresh_db))) = Inr (PriorArrestAlert v 1 # rest)))"
proof (intro conjI impI)
  assume a: "4 \<le> length v \<and> submit inp db = (Inr msgs, db')"
  then show "\<exists>rest. msgs = (if n = 0 then NoPriorArrests v else PriorArrestAlert v n) # rest"
    using submit_advisory [of inp db msgs db'] by (auto simp add: v_def n_def flag_query_def)
next
  assume a: "4 \<le> length v"
  have "submit inp fresh_db = (Inr [NoPriorArrests v, LogRecorded 1],
      fresh_db\<lparr>tbl := Some [row_of 1 (new_log_of inp)], last_id := 1,
               executed := Select # Insert # Select # executed fresh_db\<rparr>)"
    using submit_ok [of fresh_db "[]" inp] a by (simp add: v_def fresh_db_def flag_query_def)
  then show "\<exists>rest. fst (submit inp fresh_db) = Inr (NoPriorArrests v # rest)" by simp
next
  assume a: "4 \<le> length v \<and> f_is_arrested inp = 1 \<and> strip (upper (f_vehicle_number later)) = v"
  define db1 where "db1 = fresh_db\<lparr>tbl := Some [row_of 1 (new_log_of inp)], last_id := 1,
               executed := Select # Insert # Select # executed fresh_db\<rparr>"
  have s1: "submit inp fresh_db = (Inr [NoPriorArrests v, LogRecorded 1], db1)"
    using submit_ok [of fresh_db "[]" inp] a by (simp add: v_def fresh_db_def flag_query_def db1_def)
  have u: "\<not> unusable db1" and t: "tbl db1 = Some [row_of 1 (new_log_of inp)]"
    by (simp_all add: db1_def fresh_db_def)
  have c: "flag_query v [row_of 1 (new_log_of inp)] = 1"
    using a by (simp add: flag_query_def row_of_def new_log_of_def v_def)
  have "fst (submit later db1) = Inr [PriorArrestAlert v 1, LogRecorded (last_id db1 + 1)]"
    using submit_ok [OF u t, of later] a c by simp
  then show "\<exists>rest. fst (submit later (snd (submit inp fresh_db))) = Inr (PriorArrestAlert v 1 # rest)"
    by (simp add: s1)
qed


text \<open>
  The scenario of the specification: vehicle RJ01AB1234, entered twice.
\<close>

theorem prior_arrest_advisory_witness:
  "4 \<le> length (strip (upper (f_vehicle_number scenario_input)))
   \<and> f_is_arrested scenario_input = 1
   \<and> submit scenario_input fresh_db =
        (Inr [NoPriorArrests ''RJ01AB1234'', LogRecorded 1], snd (submit scenario_input fresh_db))
   \<and> (\<exists>rest. fst (submit scenario_input (snd (submit scenario_input fresh_db)))
          = Inr (PriorArrestAlert ''RJ01AB1234'' 1 # rest))"
proof -
  have len: "4 \<le> length (strip (upper (f_vehicle_number scenario_input)))"
    by (simp add: scenario_vehicle)
  have arr: "f_is_arrested scenario_input = 1" by (simp add: scenario_input_def)
  have one: "submit scenario_input fresh_db =
        (Inr [NoPriorArrests ''RJ01AB1234'', LogRecorded 1], snd (submit scenario_input fresh_db))"
    using submit_ok [of fresh_db "[]" scenario_input] len
    by (simp add: scenario_vehicle fresh_db_def flag_query_def)
  note T = prior_arrest_advisory [where inp = scenario_input and db = fresh_db and later = scenario_input
      and msgs = "[NoPriorArrests ''RJ01AB1234'', LogRecorded 1]" and db' = "snd (submit scenario_input fresh_db)"]
  have two: "\<exists>rest. fst (submit scenario_input (snd (submit scenario_input fresh_db)))
          = Inr (PriorArrestAlert ''RJ01AB1234'' 1 # rest)"
    using T len arr by (simp add: scenario_vehicle)
  show ?thesis using len arr one two by blast
qed

text \<open>
  Claim C4. A submission with \<open>search_conducted = 0\<close> persists the search type
  "No Search", whatever was typed into the field: whenever the table changes, it grows
  by one row with that search type, and on a usable store an accepted submission does
  add that row. Hence every row of a store filled by submissions alone satisfies
  \<open>search_conducted = 0 \<longrightarrow> search_type = "No Search"\<close>.
\<close>

theorem no_search_type_forced:
  "(f_search_conducted inp = 0 \<and> tbl (snd (submit inp db)) \<noteq> tbl db \<longrightarrow>
      (\<exists>rs row. tbl db = Some rs \<and> tbl (snd (submit inp db)) = Some (rs @ [row]) \<and>
                search_conducted row = Some 0 \<and> search_type row = Some ''No Search''))
   \<and> (f_search_conducted inp = 0 \<and> \<not> unusable db \<and> tbl db = Some before \<and>
        4 \<le> length (strip (upper (f_vehicle_number inp))) \<longrightarrow>
      (\<exists>row. tbl (snd (submit inp db)) = Some (before @ [row]) \<and>
             search_conducted row = Some 0 \<and> search_type row = Some ''No Search''))
   \<and> (\<forall>r \<in> set (rows (submit_all inps fresh_db)).
         search_conducted r = Some 0 \<longrightarrow> search_type r = Some ''No Search'')"
proof (intro conjI impI)
  assume a: "f_search_conducted inp = 0 \<and> tbl (snd (submit inp db)) \<noteq> tbl db"
  then obtain rs i where r: "tbl db = Some rs"
      "tbl (snd (submit inp db)) = Some (rs @ [row_of i (new_log_of inp)])"
    using submit_tbl [of inp db] by auto
  have "search_conducted (row_of i (new_log_of inp)) = Some 0"
       "search_type (row_of i (new_log_of inp)) = Some ''No Search''"
    using a by (simp_all add: row_of_def new_log_of_def)
  with r show "\<exists>rs row. tbl db = Some rs \<and> tbl (snd (submit inp db)) = Some (rs @ [row]) \<and>
                search_conducted row = Some 0 \<and> search_type row = Some ''No Search''"
    by blast
next
  assume a: "f_search_conducted inp = 0 \<and> \<not> unusable db \<and> tbl db = Some before \<and>
        4 \<le> length (strip (upper (f_vehicle_number inp)))"
  then have "tbl (snd (submit inp db)) = Some (before @ [row_of (last_id db + 1) (new_log_of inp)])"
    using submit_ok [of db before inp] by simp
  moreover have "search_conducted (row_of (last_id db + 1) (new_log_of inp)) = Some 0"
       "search_type (row_of (last_id db + 1) (new_log_of inp)) = Some ''No Search''"
    using a by (simp_all add: row_of_def new_log_of_def)
  ultimately show "\<exists>row. tbl (snd (submit inp db)) = Some (before @ [row]) \<and>
             search_conducted row = Some 0 \<and> search_type row = Some ''No Search''"
    by blast
next
  have "\<forall>r \<in> set (rows fresh_db). search_conducted r = Some 0 \<longrightarrow> search_type r = Some ''No Search''"
    by (simp add: rows_def fresh_db_def)
  then show "\<forall>r \<in> set (rows (submit_all inps fresh_db)).
         search_conducted r = Some 0 \<longrightarrow> search_type r = Some ''No Search''"
    by (rule submit_all_inv)
qed

text \<open>
  The scenario form has no search and the search type "Frisk" typed in.
\<close>

theorem no_search_type_forced_witness:
  "f_search_conducted scenario_input = 0 \<and> f_search_type scenario_input = ''Frisk''
   \<and> \<not> unusable fresh_db \<and> tbl fresh_db = Some []
   \<and> 4 \<le> length (strip (upper (f_vehicle_number scenario_input)))
   \<and> tbl (snd (submit scenario_input fresh_db)) \<noteq> tbl fresh_db
   \<and> (\<exists>row. tbl (snd (submit scenario_input fresh_db)) = Some [row] \<and>
             search_conducted row = Some 0 \<and> search_type row = Some ''No Search'')
   \<and> (\<exists>row \<in> set (rows (submit_all [scenario_input] fresh_db)).
          search_conducted row = Some 0 \<and> search_type row = Some ''No Search'')"
proof -
  have h: "f_search_conducted scenario_input = 0" "f_search_type scenario_input = ''Frisk''"
    by (simp_all add: scenario_input_def)
  have d: "\<not> unusable fresh_db" "tbl fresh_db = Some []" by (simp_all add: fresh_db_def)
  have len: "4 \<le> length (strip (upper (f_vehicle_number scenario_input)))"
    by (simp add: scenario_vehicle)
  note T = no_search_type_forced [where inp = scenario_input and db = fresh_db and before = "[]"
      and inps = "[scenario_input]"]
  from T h d len obtain row where row: "tbl (snd (submit scenario_input fresh_db)) = Some [row]"
      "search_conducted row = Some 0" "search_type row = Some ''No Search''"
    by auto
  have ne: "tbl (snd (submit scenario_input fresh_db)) \<noteq> tbl fresh_db"
    using row d by simp
  have "row \<in> set (rows (submit_all [scenario_input] fresh_db))"
    using row by (simp add: rows_def)
  moreover have "search_conducted row = Some 0 \<longrightarrow> search_type row = Some ''No Search''"
    using T calculation by blast
  ultimately have "\<exists>row \<in> set (rows (submit_all [scenario_input] fresh_db)).
          search_conducted row = Some 0 \<and> search_type row = Some ''No Search''"
    using row by blast
  then show ?thesis using h d len ne row by blast
qed

text \<open>
  Claim C5. A vehicle number that is empty or shorter than four characters after
  upper-casing and stripping is rejected with the validation message, and the store is
  the one before: same rows, same counter, no statement executed, no connection opened.
\<close>

theorem short_vehicle_number_rejected:
  "strip (upper (f_vehicle_number inp)) = [] \<or> length (strip (upper (f_vehicle_number inp))) < 4
   \<Longrightarrow> submit inp db = (Inr [InvalidVehicleNumber], db)"
  by (simp add: submit_def Let_def)

text \<open>
  Three characters after normalisation.
\<close>

theorem short_vehicle_number_rejected_witness:
  "length (strip (upper (f_vehicle_number (scenario_input\<lparr>f_vehicle_number := ''  ab1 ''\<rparr>)))) < 4
   \<and> submit (scenario_input\<lparr>f_vehicle_number := ''  ab1 ''\<rparr>) fresh_db
       = (Inr [InvalidVehicleNumber], fresh_db)
   \<and> executed (snd (submit (scenario_input\<lparr>f_vehicle_number := ''  ab1 ''\<rparr>) fresh_db)) = [CreateTable]"
proof -
  have v: "strip (upper ''  ab1 '') = ''AB1''" by code_simp
  have len: "length (strip (upper (f_vehicle_number (scenario_input\<lparr>f_vehicle_number := ''  ab1 ''\<rparr>)))) < 4"
    by (simp add: v)
  then have "submit (scenario_input\<lparr>f_vehicle_number := ''  ab1 ''\<rparr>) fresh_db
       = (Inr [InvalidVehicleNumber], fresh_db)"
    using short_vehicle_number_rejected [of "scenario_input\<lparr>f_vehicle_number := ''  ab1 ''\<rparr>" fresh_db]
    by blast
  then show ?thesis using len by (simp add: fresh_db_def)
qed

text \<open>
  Claim C6. The age bucket is total: a NULL age is "Unknown"; for every integer age
  exactly one of the six \<^verbatim>\<open>WHEN\<close> conditions is true, the six labels are distinct, and the
  bucket is the band that contains the age.
\<close>

theorem age_group_total:
  "age_group None = ''Unknown''
   \<and> length (filter (\<lambda>w. fst w = Some True) (age_whens (Some a))) = 1
   \<and> distinct (map snd (age_whens (Some a)))
   \<and> age_group (Some a) =
       (if a < 18 then ''<18'' else if a \<le> 24 then ''18-24'' else if a \<le> 34 then ''25-34''
        else if a \<le> 44 then ''35-44'' else if a \<le> 54 then ''45-54'' else ''55+'')"
  by (simp add: age_group_def age_whens_def sql_lt_def sql_between_def sql_ge_def)

section \<open>Connections of the store operations\<close>

text \<open>
  Claim C7. The read-only query, the insert and the schema introspection leave as many
  connections open as they found, on the error paths too. The schema initialisation does
  so only when its statement succeeds: on a file that cannot be used \<^verbatim>\<open>init_db\<close> raises
  and leaves its connection open, since it has no \<^verbatim>\<open>try ... finally\<close> as the other three
  have.
\<close>

theorem connection_release:
  "open_conns (snd (run_query q db)) = open_conns db
   \<and> open_conns (snd (insert_log v db)) = open_conns db
   \<and> open_conns (snd (get_table_info db)) = open_conns db
   \<and> open_conns (snd (init_db db)) = (if unusable db then Suc (open_conns db) else open_conns db)
   \<and> fst (init_db (fresh_db\<lparr>unusable := True\<rparr>)) = Inl OperationalError
   \<and> open_conns (snd (init_db (fresh_db\<lparr>unusable := True\<rparr>))) = 1"
  by (simp add: run_query_def insert_log_def get_table_info_def init_db_def fresh_db_def
        get_db_connection_def conn_close_def execute_def Let_def split: option.split)

section \<open>The KPI row on an empty table\<close>

text \<open>
  Claim C8. On an empty table the guard \<open>total_stops > 0\<close> makes the drug-related
  percentage 0.0, and the division never raises. But the two sums of \<^verbatim>\<open>load_kpis\<close> are
  NULL there, and the "Total Arrests" metric, computed one line before the percentage,
  raises on \<^verbatim>\<open>int(None)\<close>: the KPI row as a whole fails.
\<close>

theorem kpi_row_empty_store:
  "kpi_row (load_kpis_sql []) = Inl TypeError
   \<and> drug_rate (load_kpis_sql []) = Inr 0
   \<and> drug_rate k \<noteq> Inl ZeroDivisionError
   \<and> fst (load_kpis fresh_db) = Inr \<lparr>total_stops = 0, total_arrests = None, total_drug_stops = None\<rparr>"
  by (simp add: kpi_row_def drug_rate_def load_kpis_sql_def sum_flag_def py_int_def py_truediv_def
        load_kpis_def run_query_def fresh_db_def get_db_connection_def conn_close_def execute_def
        split: option.split sum.split)

section \<open>Vehicle history\<close>

lemma order_by_desc_mset: "mset (order_by_desc f xs) = mset xs"
  by (simp add: order_by_desc_def)

lemma order_by_desc_sorted: "sorted (rev (map f (order_by_desc f xs)))"
  by (simp add: order_by_desc_def rev_map)

lemma lookup_vehicle_Inr:
  assumes "lookup_vehicle text_input db = (Inr res, db')"
    and "res \<noteq> EnterVehicleNumber"
  shows "strip (upper text_input) \<noteq> [] \<and>
     res = (let df = vehicle_history (strip (upper text_input)) (rows db)
            in if df = [] then NoRecordsFound else History df)"
proof -
  let ?v = "strip (upper text_input)"
  have nz: "?v \<noteq> []" using assms by (auto simp add: lookup_vehicle_def Let_def)
  obtain r1 db1 where q: "run_query (vehicle_history ?v) db = (r1, db1)"
    by (cases "run_query (vehicle_history ?v) db")
  from assms nz q obtain d where d: "r1 = Inr d"
    by (cases r1) (auto simp add: lookup_vehicle_def Let_def split: if_splits)
  have "d = vehicle_history ?v (rows db)"
    using q d by (auto simp add: run_query_def get_db_connection_def conn_close_def execute_def
        rows_def Let_def split: if_splits option.splits)
  then show ?thesis using assms nz q d by (simp add: lookup_vehicle_def Let_def)
qed

text \<open>
  Claim C9. A lookup that shows a history shows the first 200 rows (all of them when
  there are fewer) of the rows whose vehicle number is the normalised lookup text, in
  descending order of \<open>stop_datetime\<close>: the rows shown, followed by the rows left out, are
  a descending rearrangement of exactly those rows. A lookup that reports no records has
  no such row in the table.
\<close>

theorem vehicle_history_lookup:
  "(lookup_vehicle text_input db = (Inr (History df), db') \<longrightarrow>
      (\<exists>rest.
         mset (df @ rest) = mset (filter (\<lambda>r. vehicle_number r = Some (strip (upper text_input))) (rows db))
         \<and> sorted (rev (map stop_datetime (df @ rest)))
         \<and> length df = min 200 (length (df @ rest))))
   \<and> (lookup_vehicle text_input db = (Inr NoRecordsFound, db') \<longrightarrow>
      filter (\<lambda>r. vehicle_number r = Some (strip (upper text_input))) (rows db) = [])"
proof (intro conjI impI)
  let ?v = "strip (upper text_input)"
  let ?ys = "order_by_desc stop_datetime (filter (\<lambda>r. vehicle_number r = Some ?v) (rows db))"
  assume a: "lookup_vehicle text_input db = (Inr (History df), db')"
  have df: "df = take 200 ?ys"
    using lookup_vehicle_Inr [OF a] by (simp add: Let_def vehicle_history_def split: if_splits)
  have app: "df @ drop 200 ?ys = ?ys" using df by simp
  have "mset (df @ drop 200 ?ys) = mset (filter (\<lambda>r. vehicle_number r = Some ?v) (rows db))"
    unfolding app by (rule order_by_desc_mset)
  moreover have "sorted (rev (map stop_datetime (df @ drop 200 ?ys)))"
    unfolding app by (rule order_by_desc_sorted)
  moreover have "length df = min 200 (length (df @ drop 200 ?ys))"
    unfolding app using df by simp
  ultimately show "\<exists>rest.
         mset (df @ rest) = mset (filter (\<lambda>r. vehicle_number r = Some ?v) (rows db))
         \<and> sorted (rev (map stop_datetime (df @ rest)))
         \<and> length df = min 200 (length (df @ rest))" by blast
next
  let ?v = "strip (upper text_input)"
  let ?ys = "order_by_desc stop_datetime (filter (\<lambda>r. vehicle_number r = Some ?v) (rows db))"
  assume a: "lookup_vehicle text_input db = (Inr NoRecordsFound, db')"
  have "take 200 ?ys = []"
    using lookup_vehicle_Inr [OF a] by (simp add: Let_def vehicle_history_def split: if_splits)
  then have "?ys = []" by simp
  then have "mset (filter (\<lambda>r. vehicle_number r = Some ?v) (rows db)) = {#}"
    using order_by_desc_mset [of stop_datetime "filter (\<lambda>r. vehicle_number r = Some ?v) (rows db)"]
    by simp
  then show "filter (\<lambda>r. vehicle_number r = Some ?v) (rows db) = []"
    by (simp only: mset_zero_iff)
qed

lemma stop_at_fields:
  "vehicle_number (stop_at i ts v) = Some v" "stop_datetime (stop_at i ts v) = Some ts"
  by (simp_all add: stop_at_def)

lemma three_stops_history:
  "vehicle_history ''KA05MN7777'' (rows three_stops) =
     [stop_at 3 ''2024-11-02 23:59:59'' ''KA05MN7777'', stop_at 1 ''2024-03-09 07:05:00'' ''KA05MN7777'']"
  "vehicle_history ''DL9'' (rows three_stops) = []"
  by (simp_all add: vehicle_history_def order_by_desc_def rows_def three_stops_def stop_at_fields)

lemma three_stops_lookup:
  "lookup_vehicle '' ka05mn7777'' three_stops =
     (Inr (History [stop_at 3 ''2024-11-02 23:59:59'' ''KA05MN7777'',
                    stop_at 1 ''2024-03-09 07:05:00'' ''KA05MN7777'']),
      three_stops\<lparr>executed := Select # executed three_stops\<rparr>)"
proof -
  have v: "strip (upper '' ka05mn7777'') = ''KA05MN7777''" by code_simp
  have u: "\<not> unusable three_stops" "tbl three_stops = Some (rows three_stops)"
    by (simp_all add: three_stops_def fresh_db_def rows_def)
  show ?thesis
    by (simp add: lookup_vehicle_def Let_def v run_query_ok [OF u] three_stops_history)
qed

lemma three_stops_none:
  "lookup_vehicle ''dl9'' three_stops =
     (Inr NoRecordsFound, three_stops\<lparr>executed := Select # executed three_stops\<rparr>)"
proof -
  have v: "strip (upper ''dl9'') = ''DL9''" by code_simp
  have u: "\<not> unusable three_stops" "tbl three_stops = Some (rows three_stops)"
    by (simp_all add: three_stops_def fresh_db_def rows_def)
  show ?thesis
    by (simp add: lookup_vehicle_def Let_def v run_query_ok [OF u] three_stops_history)
qed

text \<open>
  Two of the three stops belong to the vehicle looked up; the later one comes first.
\<close>

theorem vehicle_history_lookup_witness:
  "lookup_vehicle '' ka05mn7777'' three_stops =
     (Inr (History [stop_at 3 ''2024-11-02 23:59:59'' ''KA05MN7777'',
                    stop_at 1 ''2024-03-09 07:05:00'' ''KA05MN7777'']),
      three_stops\<lparr>executed := Select # executed three_stops\<rparr>)
   \<and> (\<exists>rest.
         mset ([stop_at 3 ''2024-11-02 23:59:59'' ''KA05MN7777'',
                stop_at 1 ''2024-03-09 07:05:00'' ''KA05MN7777''] @ rest)
           = mset (filter (\<lambda>r. vehicle_number r = Some (strip (upper '' ka05mn7777''))) (rows three_stops))
         \<and> length [stop_at 3 ''2024-11-02 23:59:59'' ''KA05MN7777'',
                    stop_at 1 ''2024-03-09 07:05:00'' ''KA05MN7777'']
             = min 200 (length ([stop_at 3 ''2024-11-02 23:59:59'' ''KA05MN7777'',
                                 stop_at 1 ''2024-03-09 07:05:00'' ''KA05MN7777''] @ rest)))
   \<and> lookup_vehicle ''dl9'' three_stops =
        (Inr NoRecordsFound, three_stops\<lparr>executed := Select # executed three_stops\<rparr>)
   \<and> filter (\<lambda>r. vehicle_number r = Some (strip (upper ''dl9''))) (rows three_stops) = []"
  using three_stops_lookup three_stops_none
    vehicle_history_lookup [of "'' ka05mn7777''" three_stops
      "[stop_at 3 ''2024-11-02 23:59:59'' ''KA05MN7777'', stop_at 1 ''2024-03-09 07:05:00'' ''KA05MN7777'']"
      "three_stops\<lparr>executed := Select # executed three_stops\<rparr>"]
    vehicle_history_lookup [of "''dl9''" three_stops _
      "three_stops\<lparr>executed := Select # executed three_stops\<rparr>"]
  by blast

section \<open>The country filter on the catalog\<close>

lemma contains_Nil: "contains p [] = (p = [])"
  by (simp add: contains_def)

lemma contains_Cons: "contains p (c # s) = (starts_with p (c # s) \<or> contains p s)"
  by (simp add: contains_def)

lemma starts_with_iff: "starts_with p s \<longleftrightarrow> (\<exists>t. s = p @ t)"
  by (induction p s rule: starts_with.induct) auto

lemma find_str_short: "length s < length p \<Longrightarrow> find_str p s = None"
proof (induction s)
  case Nil
  then show ?case by auto
next
  case (Cons c s)
  have "\<not> starts_with p (c # s)"
  proof
    assume "starts_with p (c # s)"
    then obtain t where "c # s = p @ t" by (auto simp add: starts_with_iff)
    then have "length (c # s) = length p + length t" by (metis length_append)
    then show False using Cons.prems by simp
  qed
  moreover have "find_str p s = None" using Cons by simp
  ultimately show ?case by simp
qed

lemma find_str_decomp:
  "find_str p s = Some i \<Longrightarrow> s = take i s @ p @ drop (i + length p) s"
proof (induction s arbitrary: i)
  case Nil
  then show ?case by (simp split: if_splits)
next
  case (Cons c s)
  show ?case
  proof (cases "starts_with p (c # s)")
    case True
    then have "i = 0" using Cons.prems by simp
    then show ?thesis using True by (auto simp add: starts_with_iff)
  next
    case False
    then obtain j where j: "find_str p s = Some j" "i = Suc j" using Cons.prems by auto
    then show ?thesis using Cons.IH [of j] by simp
  qed
qed

lemma find_str_minimal:
  "find_str p s = Some i \<Longrightarrow> p \<noteq> [] \<Longrightarrow> find_str p (take i s @ butlast p) = None"
proof (induction s arbitrary: i)
  case Nil
  then show ?case by simp
next
  case (Cons c s)
  show ?case
  proof (cases "starts_with p (c # s)")
    case True
    then have "i = 0" using Cons.prems by simp
    then show ?thesis using Cons.prems(2) by (simp add: find_str_short)
  next
    case False
    then obtain j where j: "find_str p s = Some j" "i = Suc j" using Cons.prems by auto
    have s: "s = take j s @ p @ drop (j + length p) s" using j(1) by (rule find_str_decomp)
    have "\<not> starts_with p (c # take j s @ butlast p)"
    proof
      assume "starts_with p (c # take j s @ butlast p)"
      then obtain t where t: "c # take j s @ butlast p = p @ t" by (auto simp add: starts_with_iff)
      have "c # s = c # take j s @ (butlast p @ [last p]) @ drop (j + length p) s"
        using s Cons.prems(2) by simp
      also have "\<dots> = (c # take j s @ butlast p) @ [last p] @ drop (j + length p) s" by simp
      also have "\<dots> = p @ t @ [last p] @ drop (j + length p) s" using t by simp
      finally have "starts_with p (c # s)" by (auto simp add: starts_with_iff)
      then show False using False by simp
    qed
    then show ?thesis using j Cons.IH [of j] Cons.prems(2) by simp
  qed
qed

lemma contains_decomp:
  assumes "contains p s" and "p \<noteq> []"
  shows "\<exists>pre post. s = pre @ p @ post \<and> \<not> contains p (pre @ butlast p)
           \<and> (\<forall>new. replace_first p new s = pre @ new @ post)"
proof -
  from assms(1) obtain i where i: "find_str p s = Some i" by (auto simp add: contains_def)
  have "s = take i s @ p @ drop (i + length p) s" using i by (rule find_str_decomp)
  moreover have "\<not> contains p (take i s @ butlast p)"
    using find_str_minimal [OF i assms(2)] by (simp add: contains_def)
  moreover have "\<forall>new. replace_first p new s = take i s @ new @ drop (i + length p) s"
    using i by (simp add: replace_first_def)
  ultimately show ?thesis by blast
qed

lemma replace_first_absent: "\<not> contains p s \<Longrightarrow> replace_first p new s = s"
  by (simp add: contains_def replace_first_def)

lemma count_list_Cons_sum: "count_list (x # xs) y = (if x = y then 1 else 0) + count_list xs y"
  by simp

lemma count_list_app: "count_list (xs @ ys) x = count_list xs x + count_list ys x"
  by (induction xs) simp_all

lemma upper_char_lits:
  "upper_char (CHR 0x0A) = CHR 0x0A"
  "upper_char (CHR '' '') = CHR '' ''"
  "upper_char (CHR ''%'') = CHR ''%''"
  "upper_char (CHR 0x27) = CHR 0x27"
  "upper_char (CHR ''('') = CHR ''(''"
  "upper_char (CHR '')'') = CHR '')''"
  "upper_char (CHR ''*'') = CHR ''*''"
  "upper_char (CHR ''+'') = CHR ''+''"
  "upper_char (CHR '','') = CHR '',''"
  "upper_char (CHR ''-'') = CHR ''-''"
  "upper_char (CHR ''.'') = CHR ''.''"
  "upper_char (CHR ''/'') = CHR ''/''"
  "upper_char (CHR ''0'') = CHR ''0''"
  "upper_char (CHR ''1'') = CHR ''1''"
  "upper_char (CHR ''2'') = CHR ''2''"
  "upper_char (CHR ''3'') = CHR ''3''"
  "upper_char (CHR ''4'') = CHR ''4''"
  "upper_char (CHR ''5'') = CHR ''5''"
  "upper_char (CHR ''8'') = CHR ''8''"
  "upper_char (CHR '';'') = CHR '';''"
  "upper_char (CHR ''<'') = CHR ''<''"
  "upper_char (CHR ''='') = CHR ''=''"
  "upper_char (CHR ''>'') = CHR ''>''"
  "upper_char (CHR ''A'') = CHR ''A''"
  "upper_char (CHR ''B'') = CHR ''B''"
  "upper_char (CHR ''C'') = CHR ''C''"
  "upper_char (CHR ''D'') = CHR ''D''"
  "upper_char (CHR ''E'') = CHR ''E''"
  "upper_char (CHR ''F'') = CHR ''F''"
  "upper_char (CHR ''G'') = CHR ''G''"
  "upper_char (CHR ''H'') = CHR ''H''"
  "upper_char (CHR ''I'') = CHR ''I''"
  "upper_char (CHR ''L'') = CHR ''L''"
  "upper_char (CHR ''M'') = CHR ''M''"
  "upper_char (CHR ''N'') = CHR ''N''"
  "upper_char (CHR ''O'') = CHR ''O''"
  "upper_char (CHR ''P'') = CHR ''P''"
  "upper_char (CHR ''R'') = CHR ''R''"
  "upper_char (CHR ''S'') = CHR ''S''"
  "upper_char (CHR ''T'') = CHR ''T''"
  "upper_char (CHR ''U'') = CHR ''U''"
  "upper_char (CHR ''V'') = CHR ''V''"
  "upper_char (CHR ''W'') = CHR ''W''"
  "upper_char (CHR ''Y'') = CHR ''Y''"
  "upper_char (CHR ''_'') = CHR ''_''"
  "upper_char (CHR ''a'') = CHR ''A''"
  "upper_char (CHR ''c'') = CHR ''C''"
  "upper_char (CHR ''d'') = CHR ''D''"
  "upper_char (CHR ''e'') = CHR ''E''"
  "upper_char (CHR ''f'') = CHR ''F''"
  "upper_char (CHR ''g'') = CHR ''G''"
  "upper_char (CHR ''h'') = CHR ''H''"
  "upper_char (CHR ''i'') = CHR ''I''"
  "upper_char (CHR ''k'') = CHR ''K''"
  "upper_char (CHR ''l'') = CHR ''L''"
  "upper_char (CHR ''m'') = CHR ''M''"
  "upper_char (CHR ''n'') = CHR ''N''"
  "upper_char (CHR ''o'') = CHR ''O''"
  "upper_char (CHR ''p'') = CHR ''P''"
  "upper_char (CHR ''r'') = CHR ''R''"
  "upper_char (CHR ''s'') = CHR ''S''"
  "upper_char (CHR ''t'') = CHR ''T''"
  "upper_char (CHR ''u'') = CHR ''U''"
  "upper_char (CHR ''v'') = CHR ''V''"
  "upper_char (CHR ''w'') = CHR ''W''"
  "upper_char (CHR ''y'') = CHR ''Y''"
  by code_simp+

lemmas eval_str = contains_Nil contains_Cons starts_with.simps char.inject simp_thms
  list.distinct count_list.simps(1) count_list_Cons_sum if_True if_False add_0 add_0_right
  upper_def list.map upper_char_lits

lemma catalog_without_country:
  "\<not> contains ''country_name'' q_top_drug_vehicles"
  "\<not> contains ''country_name'' q_most_searched_vehicles"
  "\<not> contains ''country_name'' q_age_group_arrest_rate"
  "\<not> contains ''country_name'' q_race_gender_search_rate"
  "\<not> contains ''country_name'' q_stops_by_hour"
  "\<not> contains ''country_name'' q_avg_duration"
  "\<not> contains ''country_name'' q_night_arrests"
  "\<not> contains ''country_name'' q_violation_search_arrest"
  "\<not> contains ''country_name'' q_violations_under25"
  "\<not> contains ''country_name'' q_violations_rare"
  "\<not> contains ''country_name'' q_trends_age_race"
  "\<not> contains ''country_name'' q_stops_year_month_hour"
  "\<not> contains ''country_name'' q_ranked_violations"
  "\<not> contains ''country_name'' q_top5_arrest_rate"
  unfolding q_top_drug_vehicles_def q_most_searched_vehicles_def q_age_group_arrest_rate_def q_race_gender_search_rate_def q_stops_by_hour_def q_avg_duration_def q_night_arrests_def q_violation_search_arrest_def q_violations_under25_def q_violations_rare_def q_trends_age_race_def q_stops_year_month_hour_def q_ranked_violations_def q_top5_arrest_rate_def
  by (simp_all only: eval_str)

lemma catalog_with_country:
  "contains ''country_name'' q_gender_by_country"
  "contains ''country_name'' q_country_drug_rate"
  "contains ''country_name'' q_country_violation_arrest"
  "contains ''country_name'' q_country_searches"
  "contains ''country_name'' q_yearly_breakdown"
  "contains ''country_name'' q_demographics_by_country"
  unfolding q_gender_by_country_def q_country_drug_rate_def q_country_violation_arrest_def q_country_searches_def q_yearly_breakdown_def q_demographics_by_country_def
  by (simp_all only: eval_str)

lemma catalog_group_by:
  "contains ''GROUP BY'' q_gender_by_country"
  "contains ''GROUP BY'' q_country_drug_rate"
  "contains ''GROUP BY'' q_country_violation_arrest"
  "contains ''GROUP BY'' q_country_searches"
  "contains ''GROUP BY'' q_yearly_breakdown"
  "contains ''GROUP BY'' q_demographics_by_country"
  unfolding q_gender_by_country_def q_country_drug_rate_def q_country_violation_arrest_def q_country_searches_def q_yearly_breakdown_def q_demographics_by_country_def
  by (simp_all only: eval_str)

lemma catalog_no_where:
  "\<not> contains ''WHERE'' (upper q_gender_by_country)"
  "\<not> contains ''WHERE'' (upper q_country_drug_rate)"
  "\<not> contains ''WHERE'' (upper q_country_violation_arrest)"
  "\<not> contains ''WHERE'' (upper q_country_searches)"
  "\<not> contains ''WHERE'' (upper q_yearly_breakdown)"
  "\<not> contains ''WHERE'' (upper q_demographics_by_country)"
  unfolding q_gender_by_country_def q_country_drug_rate_def q_country_violation_arrest_def q_country_searches_def q_yearly_breakdown_def q_demographics_by_country_def
  by (simp_all only: eval_str)

lemma catalog_no_placeholder:
  "count_list q_gender_by_country (CHR ''?'') = 0"
  "count_list q_country_drug_rate (CHR ''?'') = 0"
  "count_list q_country_violation_arrest (CHR ''?'') = 0"
  "count_list q_country_searches (CHR ''?'') = 0"
  "count_list q_yearly_breakdown (CHR ''?'') = 0"
  "count_list q_demographics_by_country (CHR ''?'') = 0"
  unfolding q_gender_by_country_def q_country_drug_rate_def q_country_violation_arrest_def q_country_searches_def q_yearly_breakdown_def q_demographics_by_country_def
  by (simp_all only: eval_str)

lemma catalog_cases:
  assumes "(name, q) \<in> set SQL_QUERIES"
  shows "q \<in> {q_top_drug_vehicles, q_most_searched_vehicles, q_age_group_arrest_rate, q_race_gender_search_rate, q_stops_by_hour, q_avg_duration, q_night_arrests, q_violation_search_arrest, q_violations_under25, q_violations_rare, q_trends_age_race, q_stops_year_month_hour, q_ranked_violations, q_top5_arrest_rate}
       \<or> q \<in> {q_gender_by_country, q_country_drug_rate, q_country_violation_arrest, q_country_searches, q_yearly_breakdown, q_demographics_by_country}"
  using assms by (auto simp add: SQL_QUERIES_def)

lemma filter_ignored:
  "\<not> contains ''country_name'' q \<Longrightarrow> analytics_call q cf = (q, None)"
  by (simp add: analytics_call_def country_filter_rewrite_def)

lemma filter_before_group_by:
  assumes "contains ''country_name'' q" and "\<not> contains ''WHERE'' (upper q)"
    and "contains ''GROUP BY'' q" and "count_list q (CHR ''?'') = 0" and "cf \<noteq> []"
  shows "\<exists>pre post. q = pre @ ''GROUP BY'' @ post \<and> \<not> contains ''GROUP BY'' (pre @ ''GROUP B'')
     \<and> analytics_call q cf = (pre @ ''WHERE country_name = ? '' @ ''GROUP BY'' @ post, Some [cf])
     \<and> count_list (pre @ ''WHERE country_name = ? '' @ ''GROUP BY'' @ post) (CHR ''?'') = 1"
proof -
  obtain pre post where d: "q = pre @ ''GROUP BY'' @ post"
      "\<not> contains ''GROUP BY'' (pre @ butlast ''GROUP BY'')"
      "\<forall>new. replace_first ''GROUP BY'' new q = pre @ new @ post"
    using contains_decomp [OF assms(3)] by auto
  have m: "\<not> contains ''GROUP BY'' (pre @ ''GROUP B'')" using d(2) by simp
  have r: "analytics_call q cf = (pre @ ''WHERE country_name = ? GROUP BY'' @ post, Some [cf])"
    using assms(1,2,5) d(3) by (simp add: analytics_call_def country_filter_rewrite_def)
  have "count_list pre (CHR ''?'') + count_list post (CHR ''?'') = 0"
    using assms(4) unfolding d(1) by (simp add: count_list_app)
  then have c: "count_list (pre @ ''WHERE country_name = ? '' @ ''GROUP BY'' @ post) (CHR ''?'') = 1"
    by (simp add: count_list_app)
  show ?thesis using d(1) m r c by auto
qed

lemma contains_embedded: "contains p (a @ p @ b)"
proof (induction a)
  case Nil
  show ?case
  proof (cases "p @ b")
    case Nil
    then show ?thesis by (simp add: contains_Nil)
  next
    case (Cons c s)
    have "starts_with p (p @ b)" by (auto simp add: starts_with_iff)
    then show ?thesis using Cons by (simp add: contains_Cons)
  qed
next
  case (Cons c a)
  then show ?case by (simp add: contains_Cons)
qed

lemma contains_upper:
  assumes "contains p s"
  shows "contains (upper p) (upper s)"
proof -
  from assms obtain i where "find_str p s = Some i" by (auto simp add: contains_def)
  then have "s = take i s @ p @ drop (i + length p) s" by (rule find_str_decomp)
  then have "upper s = upper (take i s) @ upper p @ upper (drop (i + length p) s)"
    by (metis map_append upper_def)
  then show ?thesis by (metis contains_embedded)
qed

text \<open>
  The other branch of the rewrite, for any text that names the country and has a
  \<^verbatim>\<open>WHERE\<close> in capitals: the predicate is put right after the leftmost \<^verbatim>\<open>WHERE\<close> and joined
  to the conditions that follow by \<^verbatim>\<open>AND\<close>. No entry of the catalog takes this branch.
\<close>

lemma filter_conjoined_to_where:
  assumes "contains ''country_name'' q" and "contains ''WHERE'' q" and "cf \<noteq> []"
  shows "\<exists>pre post. q = pre @ ''WHERE'' @ post \<and> \<not> contains ''WHERE'' (pre @ ''WHER'')
     \<and> analytics_call q cf = (pre @ ''WHERE country_name = ? AND '' @ post, Some [cf])"
proof -
  have u: "upper ''WHERE'' = ''WHERE''" by code_simp
  have w: "contains ''WHERE'' (upper q)" using contains_upper [OF assms(2)] by (simp only: u)
  obtain pre post where d: "q = pre @ ''WHERE'' @ post"
      "\<not> contains ''WHERE'' (pre @ butlast ''WHERE'')"
      "\<forall>new. replace_first ''WHERE'' new q = pre @ new @ post"
    using contains_decomp [OF assms(2)] by auto
  have m: "\<not> contains ''WHERE'' (pre @ ''WHER'')" using d(2) by simp
  have "analytics_call q cf = (pre @ ''WHERE country_name = ? AND '' @ post, Some [cf])"
    using assms(1,3) w d(3) by (simp add: analytics_call_def country_filter_rewrite_def)
  then show ?thesis using d(1) m by blast
qed

text \<open>
  Claim C1. For every entry of the catalog and every non-empty country filter: a text
  without \<^verbatim>\<open>country_name\<close> is executed as it is, with no parameters. A text with
  \<^verbatim>\<open>country_name\<close> has, in this catalog, no \<^verbatim>\<open>WHERE\<close> in any letter case, so the rewrite
  takes its second branch: the text executed is the original with the one predicate
  \<^verbatim>\<open>WHERE country_name = ? \<close> put in front of the leftmost \<^verbatim>\<open>GROUP BY\<close>; it has exactly
  one placeholder, and the filter value is the only bound parameter and no part of the
  text.
\<close>

theorem country_filter_on_catalog:
  assumes "(name, q) \<in> set SQL_QUERIES" and "cf \<noteq> []"
  shows "(\<not> contains ''country_name'' q \<longrightarrow> analytics_call q cf = (q, None))
     \<and> (contains ''country_name'' q \<longrightarrow>
          \<not> contains ''WHERE'' (upper q) \<and>
          (\<exists>pre post. q = pre @ ''GROUP BY'' @ post \<and> \<not> contains ''GROUP BY'' (pre @ ''GROUP B'')
             \<and> analytics_call q cf = (pre @ ''WHERE country_name = ? '' @ ''GROUP BY'' @ post, Some [cf])
             \<and> count_list (pre @ ''WHERE country_name = ? '' @ ''GROUP BY'' @ post) (CHR ''?'') = 1))"
proof -
  consider (absent) "\<not> contains ''country_name'' q"
    | (present) "contains ''country_name'' q" "\<not> contains ''WHERE'' (upper q)"
        "contains ''GROUP BY'' q" "count_list q (CHR ''?'') = 0"
    using catalog_cases [OF assms(1)] catalog_without_country catalog_with_country
      catalog_group_by catalog_no_where catalog_no_placeholder
    by auto
  then show ?thesis
  proof cases
    case absent
    then show ?thesis using filter_ignored by simp
  next
    case present
    then show ?thesis using filter_before_group_by [OF present assms(2)] by simp
  qed
qed

text \<open>
  One report that names the country and one that does not, filtered by "India".
\<close>

theorem country_filter_on_catalog_witness:
  "(''Gender distribution by country'', q_gender_by_country) \<in> set SQL_QUERIES
   \<and> ''India'' \<noteq> []
   \<and> contains ''country_name'' q_gender_by_country
   \<and> (\<exists>pre post. q_gender_by_country = pre @ ''GROUP BY'' @ post
         \<and> analytics_call q_gender_by_country ''India''
             = (pre @ ''WHERE country_name = ? '' @ ''GROUP BY'' @ post, Some [''India'']))
   \<and> (''Stops by hour of day'', q_stops_by_hour) \<in> set SQL_QUERIES
   \<and> \<not> contains ''country_name'' q_stops_by_hour
   \<and> analytics_call q_stops_by_hour ''India'' = (q_stops_by_hour, None)"
proof -
  have m1: "(''Gender distribution by country'', q_gender_by_country) \<in> set SQL_QUERIES"
    and m2: "(''Stops by hour of day'', q_stops_by_hour) \<in> set SQL_QUERIES"
    by (simp_all add: SQL_QUERIES_def)
  have ne: "''India'' \<noteq> []" by simp
  have c1: "contains ''country_name'' q_gender_by_country" by (rule catalog_with_country)
  have c2: "\<not> contains ''country_name'' q_stops_by_hour" by (rule catalog_without_country)
  have r1: "\<exists>pre post. q_gender_by_country = pre @ ''GROUP BY'' @ post
         \<and> analytics_call q_gender_by_country ''India''
             = (pre @ ''WHERE country_name = ? '' @ ''GROUP BY'' @ post, Some [''India''])"
    using country_filter_on_catalog [OF m1 ne] c1 by blast
  have r2: "analytics_call q_stops_by_hour ''India'' = (q_stops_by_hour, None)"
    using country_filter_on_catalog [OF m2 ne] c2 by blast
  show ?thesis using m1 m2 ne c1 c2 r1 r2 by blast
qed

section \<open>Rate reports\<close>


lemma set_order_by_desc [simp]: "set (order_by_desc f xs) = set xs"
  by (simp add: order_by_desc_def)

lemma set_order_by_asc [simp]: "set (order_by_asc f xs) = set xs"
  by (simp add: order_by_asc_def)






lemma mset_order_by_desc [simp]: "mset (order_by_desc f xs) = mset xs"
  by (simp add: order_by_desc_def)

lemma mset_order_by_asc [simp]: "mset (order_by_asc f xs) = mset xs"
  by (simp add: order_by_asc_def)



















lemma india_stop_fields:
  "country_name (india_stop d) = Some ''India''" "drugs_related_stop (india_stop d) = Some d"
  by (simp_all add: india_stop_def row_of_def new_log_of_def scenario_input_def)

lemma group_by_single_key:
  assumes "rs \<noteq> []" and "\<forall>r \<in> set rs. key r = k"
  shows "group_by key rs = [(k, rs)]"
proof -
  have m: "map key rs = replicate (length rs) k"
    using assms(2) by (induction rs) simp_all
  have rr: "remdups (replicate (Suc n) k) = [k]" for n by (induction n) simp_all
  obtain n where n: "length rs = Suc n" using assms(1) by (cases rs) simp_all
  have "remdups (map key rs) = [k]" unfolding m n by (rule rr)
  moreover have "filter (\<lambda>r. key r = k) rs = rs" using assms(2) by (simp add: filter_id_conv)
  ultimately show ?thesis by (simp add: group_by_def)
qed



lemma fifty_stops_report: "country_drug_rate (replicate 50 (india_stop 0)) = []"
proof -
  have g: "group_by country_name (replicate 50 (india_stop 0)) = [(Some ''India'', replicate 50 (india_stop 0))]"
    by (rule group_by_single_key) (auto simp add: india_stop_fields)
  show ?thesis by (simp add: country_drug_rate_def g count_star_def order_by_desc_def)
qed




section \<open>Stored timestamps\<close>

lemma digit_props:
  "is_digit (digit n)" "digit_val (digit n) = n mod 10"
proof -
  have "(of_char (digit n) :: nat) = 48 + n mod 10"
    by (simp add: digit_def)
  then show "is_digit (digit n)" "digit_val (digit n) = n mod 10"
    by (simp_all add: is_digit_def digit_val_def)
qed

lemma digit_not_sep: "digit n \<noteq> CHR ''-''" "digit n \<noteq> CHR '':''" "digit n \<noteq> CHR '' ''"
proof -
  have d: "(of_char (digit n) :: nat) = 48 + n mod 10" by (simp add: digit_def)
  have "(of_char (digit n) :: nat) \<noteq> of_char (CHR ''-'')"
       "(of_char (digit n) :: nat) \<noteq> of_char (CHR '':'')"
       "(of_char (digit n) :: nat) \<noteq> of_char (CHR '' '')"
    unfolding d by simp_all
  then show "digit n \<noteq> CHR ''-''" "digit n \<noteq> CHR '':''" "digit n \<noteq> CHR '' ''"
    by auto
qed

lemma num_fmt2: "n < 100 \<Longrightarrow> num (fmt2 n) = Some n"
  by (simp add: num_def fmt2_def digit_props)

lemma four_digits:
  fixes n :: nat
  shows "1000 * (n div 1000) + 100 * (n div 100 mod 10) + 10 * (n div 10 mod 10) + n mod 10 = n"
proof -
  define q1 where "q1 = n div 10"
  define q2 where "q2 = q1 div 10"
  define q3 where "q3 = q2 div 10"
  have e1: "n div 100 = q2" unfolding q2_def q1_def by (simp add: div_mult2_eq [symmetric])
  have e2: "n div 1000 = q3" unfolding q3_def q2_def q1_def by (simp add: div_mult2_eq [symmetric])
  have d1: "n = 10 * q1 + n mod 10" unfolding q1_def by simp
  have d2: "q1 = 10 * q2 + q1 mod 10" unfolding q2_def by simp
  have d3: "q2 = 10 * q3 + q2 mod 10" unfolding q3_def by simp
  have "1000 * q3 + 100 * (q2 mod 10) + 10 * (q1 mod 10) + n mod 10 = n"
    using d1 d2 d3 by linarith
  then show ?thesis unfolding e1 e2 q1_def [symmetric] .
qed

lemma num_fmt4: "n < 10000 \<Longrightarrow> num (fmt4 n) = Some n"
  by (simp add: num_def fmt4_def digit_props four_digits)

lemma fmt_year_4: "1000 \<le> y \<Longrightarrow> fmt_year y = fmt4 y"
  by (simp add: fmt_year_def fmt4_def)

lemma cast_digits:
  "list_all is_digit s \<Longrightarrow>
   cast_integer (Some s) = Some (int (foldl (\<lambda>a c. 10 * a + digit_val c) 0 s))"
proof -
  assume "list_all is_digit s"
  then have "takeWhile is_digit s = s" by (simp add: list_all_iff)
  then show ?thesis by (simp only: cast_integer_def option.map)
qed

lemma cast_fmt2: "n < 100 \<Longrightarrow> cast_integer (Some (fmt2 n)) = Some (int n)"
  using num_fmt2 [of n] cast_digits [of "fmt2 n"]
  by (simp add: num_def fmt2_def digit_props split: if_splits)

lemma cast_fmt4: "n < 10000 \<Longrightarrow> cast_integer (Some (fmt4 n)) = Some (int n)"
  using num_fmt4 [of n] cast_digits [of "fmt4 n"]
  by (simp add: num_def fmt4_def digit_props split: if_splits)

lemma sqlite_reads_strftime:
  assumes "valid_date d" and "valid_time t" and "1000 \<le> year d"
  shows "sqlite_datetime (strftime_ymd_hms d t) = Some \<lparr>dt_date = d, dt_time = t\<rparr>"
proof -
  have y: "year d < 10000" and m: "month d < 100" and dd: "day d < 100"
    and r: "1 \<le> month d" "month d \<le> 12" "1 \<le> day d" "day d \<le> days_in_month (year d) (month d)"
    using assms(1) by (auto simp add: valid_date_def days_in_month_def split: if_splits)
  have h: "hour t < 100" "minute t < 100" "second t < 100"
    using assms(2) by (simp_all add: valid_time_def)
  have ny: "num [digit (year d div 1000), digit (year d div 100), digit (year d div 10), digit (year d)] = Some (year d)"
    using num_fmt4 [OF y] by (simp add: fmt4_def)
  have n2: "num [digit (n div 10), digit n] = Some n" if "n < 100" for n
    using num_fmt2 [OF that] by (simp add: fmt2_def)
  have dr: "d = \<lparr>year = year d, month = month d, day = day d\<rparr>"
       "t = \<lparr>hour = hour t, minute = minute t, second = second t\<rparr>" by simp_all
  show ?thesis
    using r assms(2) dr
    by (simp add: sqlite_datetime_def strftime_ymd_hms_def fmt_year_4 [OF assms(3)] fmt4_def fmt2_def
        ny n2 [OF m] n2 [OF dd] n2 [OF h(1)] n2 [OF h(2)] n2 [OF h(3)] digit_not_sep Let_def
        valid_time_def)
qed

lemma strftime_length: "1000 \<le> year d \<Longrightarrow> length (strftime_ymd_hms d t) = 19"
  by (simp add: strftime_ymd_hms_def fmt_year_4 fmt4_def fmt2_def)

lemma sql_fields_of_strftime:
  assumes "valid_date d" and "valid_time t" and "1000 \<le> year d"
  shows "sql_year (Some (strftime_ymd_hms d t)) = Some (int (year d))"
    and "sql_month (Some (strftime_ymd_hms d t)) = Some (int (month d))"
    and "sql_hour (Some (strftime_ymd_hms d t)) = Some (int (hour t))"
proof -
  have y: "year d < 10000" and m: "month d < 100"
    using assms(1) by (auto simp add: valid_date_def)
  have h: "hour t < 100" using assms(2) by (simp add: valid_time_def)
  note r = sqlite_reads_strftime [OF assms]
  show "sql_year (Some (strftime_ymd_hms d t)) = Some (int (year d))"
    by (simp add: sql_year_def sqlite_strftime_def r cast_fmt4 [OF y])
  show "sql_month (Some (strftime_ymd_hms d t)) = Some (int (month d))"
    by (simp add: sql_month_def sqlite_strftime_def r cast_fmt2 [OF m])
  show "sql_hour (Some (strftime_ymd_hms d t)) = Some (int (hour t))"
    by (simp add: sql_hour_def sqlite_strftime_def r cast_fmt2 [OF h])
qed

text \<open>
  Claim C10. A row added by a submission, for a calendar date with a four-digit year and
  a time of day, holds the text \<^verbatim>\<open>YYYY-MM-DD HH:MM:SS\<close>: four digits, two digits each for
  the other fields, 19 characters. SQLite reads that text back as the date and time
  entered, so the year, month and hour that the reports derive with \<^verbatim>\<open>strftime\<close> are not
  NULL and are the year, month and hour entered. (The date widget offers dates within ten
  years of today; below year 1000 the padding of \<^verbatim>\<open>%Y\<close> depends on the platform.)
\<close>

theorem ingested_stop_datetime:
  assumes "valid_date (f_stop_date inp)" and "valid_time (f_stop_time inp)"
    and "1000 \<le> year (f_stop_date inp)"
    and "tbl db = Some rs" and "tbl (snd (submit inp db)) = Some (rs @ [row])"
  shows "stop_datetime row = Some (strftime_ymd_hms (f_stop_date inp) (f_stop_time inp))
     \<and> strftime_ymd_hms (f_stop_date inp) (f_stop_time inp) =
         fmt4 (year (f_stop_date inp)) @ ''-'' @ fmt2 (month (f_stop_date inp)) @ ''-'' @
         fmt2 (day (f_stop_date inp)) @ '' '' @ fmt2 (hour (f_stop_time inp)) @ '':'' @
         fmt2 (minute (f_stop_time inp)) @ '':'' @ fmt2 (second (f_stop_time inp))
     \<and> length (strftime_ymd_hms (f_stop_date inp) (f_stop_time inp)) = 19
     \<and> sqlite_datetime (strftime_ymd_hms (f_stop_date inp) (f_stop_time inp))
         = Some \<lparr>dt_date = f_stop_date inp, dt_time = f_stop_time inp\<rparr>
     \<and> sql_year (stop_datetime row) = Some (int (year (f_stop_date inp)))
     \<and> sql_month (stop_datetime row) = Some (int (month (f_stop_date inp)))
     \<and> sql_hour (stop_datetime row) = Some (int (hour (f_stop_time inp)))"
proof -
  from submit_tbl [of inp db] assms(4,5) obtain i where "row = row_of i (new_log_of inp)"
    by auto
  then have sd: "stop_datetime row = Some (strftime_ymd_hms (f_stop_date inp) (f_stop_time inp))"
    by (simp add: row_of_def new_log_of_def)
  have f: "strftime_ymd_hms (f_stop_date inp) (f_stop_time inp) =
         fmt4 (year (f_stop_date inp)) @ ''-'' @ fmt2 (month (f_stop_date inp)) @ ''-'' @
         fmt2 (day (f_stop_date inp)) @ '' '' @ fmt2 (hour (f_stop_time inp)) @ '':'' @
         fmt2 (minute (f_stop_time inp)) @ '':'' @ fmt2 (second (f_stop_time inp))"
    by (simp add: strftime_ymd_hms_def fmt_year_4 [OF assms(3)])
  show ?thesis
    unfolding sd
    using f strftime_length [OF assms(3)] sqlite_reads_strftime [OF assms(1,2,3)]
      sql_fields_of_strftime [OF assms(1,2,3)]
    by blast
qed

lemma scenario_datetime:
  "strftime_ymd_hms (f_stop_date scenario_input) (f_stop_time scenario_input) = ''2024-03-09 07:05:00''"
  unfolding scenario_input_def by code_simp

text \<open>
  The scenario form: 9 March 2024, 07:05:00.
\<close>

theorem ingested_stop_datetime_witness:
  "valid_date (f_stop_date scenario_input) \<and> valid_time (f_stop_time scenario_input)
   \<and> 1000 \<le> year (f_stop_date scenario_input)
   \<and> tbl fresh_db = Some []
   \<and> tbl (snd (submit scenario_input fresh_db)) = Some ([] @ [row_of 1 (new_log_of scenario_input)])
   \<and> stop_datetime (row_of 1 (new_log_of scenario_input)) = Some ''2024-03-09 07:05:00''
   \<and> sql_year (Some ''2024-03-09 07:05:00'') = Some 2024
   \<and> sql_month (Some ''2024-03-09 07:05:00'') = Some 3
   \<and> sql_hour (Some ''2024-03-09 07:05:00'') = Some 7"
proof -
  have v: "valid_date (f_stop_date scenario_input)" "valid_time (f_stop_time scenario_input)"
      "1000 \<le> year (f_stop_date scenario_input)"
    by (simp_all add: scenario_input_def valid_date_def valid_time_def days_in_month_def)
  have t0: "tbl fresh_db = Some []" by (simp add: fresh_db_def)
  have len: "4 \<le> length (strip (upper (f_vehicle_number scenario_input)))"
    by (simp add: scenario_vehicle)
  have t1: "tbl (snd (submit scenario_input fresh_db)) = Some ([] @ [row_of 1 (new_log_of scenario_input)])"
    using submit_ok [of fresh_db "[]" scenario_input] len by (simp add: fresh_db_def)
  note T = ingested_stop_datetime [OF v t0 t1]
  have ymd: "year (f_stop_date scenario_input) = 2024" "month (f_stop_date scenario_input) = 3"
      "hour (f_stop_time scenario_input) = 7"
    by (simp_all add: scenario_input_def)
  have sd: "stop_datetime (row_of 1 (new_log_of scenario_input)) = Some ''2024-03-09 07:05:00''"
    using T by (simp add: scenario_datetime)
  have a: "sql_year (stop_datetime (row_of 1 (new_log_of scenario_input)))
             = Some (int (year (f_stop_date scenario_input)))"
    and b: "sql_month (stop_datetime (row_of 1 (new_log_of scenario_input)))
             = Some (int (month (f_stop_date scenario_input)))"
    and c: "sql_hour (stop_datetime (row_of 1 (new_log_of scenario_input)))
             = Some (int (hour (f_stop_time scenario_input)))"
    using T by blast+
  have "sql_year (Some ''2024-03-09 07:05:00'') = Some 2024"
       "sql_month (Some ''2024-03-09 07:05:00'') = Some 3"
       "sql_hour (Some ''2024-03-09 07:05:00'') = Some 7"
    using a b c by (simp_all add: sd ymd)
  then show ?thesis using v t0 t1 sd by blast
qed

end
